theory Spec2Isabelle
  imports Main "HOL-Library.Sublist"
begin

section \<open>Strings\<close>

text \<open>
  A JavaScript string is a sequence of UTF-16 code units; \<open>length\<close>, \<open>substring\<close>,
  \<open>includes\<close> and \<open>trim\<close> all count and compare code units. A string is therefore
  modelled as the list of its code units, each a natural number below \<open>0x10000\<close>.
  Texts of the source that are not plain ASCII are written as lists of code units
  in hexadecimal, with the place in the source and an English gloss above each.
\<close>

type_synonym jstring = "nat list"

text \<open>An ASCII literal of the source, as code units.\<close>

definition asc :: "string \<Rightarrow> jstring" where
  "asc s = map of_char s"

text \<open>
  \<open>String.prototype.trim\<close> removes ECMAScript white space and line terminators from
  both ends: TAB, LF, VT, FF, CR, SPACE, NBSP, U+1680, U+2000..U+200A, U+2028, U+2029,
  U+202F, U+205F, U+3000 and U+FEFF.
\<close>

definition is_white_space :: "nat \<Rightarrow> bool" where
  "is_white_space c \<longleftrightarrow>
     c \<in> {0x09, 0x0A, 0x0B, 0x0C, 0x0D, 0x20, 0xA0, 0x1680, 0x2028, 0x2029, 0x202F,
          0x205F, 0x3000, 0xFEFF} \<or> (0x2000 \<le> c \<and> c \<le> 0x200A)"

definition trim :: "jstring \<Rightarrow> jstring" where
  "trim s = rev (dropWhile is_white_space (rev (dropWhile is_white_space s)))"

text \<open>\<open>Array.prototype.join\<close> on an array of strings.\<close>

fun join :: "jstring \<Rightarrow> jstring list \<Rightarrow> jstring" where
  "join sep [] = []"
| "join sep [x] = x"
| "join sep (x # y # ys) = x @ sep @ join sep (y # ys)"

text \<open>\<open>String.prototype.includes\<close>: the argument occurs as a contiguous run.\<close>

definition str_includes :: "jstring \<Rightarrow> jstring \<Rightarrow> bool" where
  "str_includes s x = sublist x s"

text \<open>\<open>a || b\<close> on strings: the empty string is falsy.\<close>

definition js_or :: "jstring \<Rightarrow> jstring \<Rightarrow> jstring" where
  "js_or a b = (if a = [] then b else a)"

text \<open>
  \<open>v || d\<close> where \<open>v\<close> is an optional string (a missing property or an unset
  environment variable is \<open>undefined\<close>) and \<open>d\<close> a string.
\<close>

definition or_default :: "jstring option \<Rightarrow> jstring \<Rightarrow> jstring" where
  "or_default v d = (case v of None \<Rightarrow> d | Some s \<Rightarrow> js_or s d)"

text \<open>The rendering of a non-negative integer inside a template literal.\<close>

fun show_nat :: "nat \<Rightarrow> jstring" where
  "show_nat n = (if n < 10 then [0x30 + n] else show_nat (n div 10) @ [0x30 + n mod 10])"

declare show_nat.simps [simp del]

section \<open>Thrown values\<close>

text \<open>
  A value thrown in JavaScript: an \<open>Error\<close> object with its \<open>name\<close> and \<open>message\<close>, or
  any other value (for which \<open>instanceof Error\<close> is false).
\<close>

datatype thrown = ErrorObj (error_name: jstring) (error_message: jstring) | NonError

definition new_Error :: "jstring \<Rightarrow> thrown" where
  "new_Error msg = ErrorObj (asc ''Error'') msg"

section \<open>The prompt texts of \<open>src/app/api/generate/route.ts\<close>\<close>

text \<open>
  Lines 210-212 and 260-262, the opening shared by both templates up to the title:
  "You are answering the following question on Zhihu:", a blank line, and the opening
  corner bracket U+300C.
\<close>

definition tmpl_open :: jstring where
  "tmpl_open =
    [0x4F60, 0x6B63, 0x5728, 0x77E5, 0x4E4E, 0x56DE, 0x7B54, 0x4E0B, 0x9762, 0x8FD9, 0x4E2A,
     0x95EE, 0x9898, 0xFF1A, 0x000A, 0x000A, 0x300C]"

text \<open>
  Lines 212-220, from the closing corner bracket U+300D after the title to the colon
  before the model names: the three core writing rules (answer the asker's confusion
  first; how to judge and choose, not which product to buy; products are examples, not
  the subject), the heading "On the use of products:" and "- Products that may serve as
  examples:".
\<close>

definition products_rules :: jstring where
  "products_rules =
    [0x300D, 0x000A, 0x000A, 0x6838, 0x5FC3, 0x5199, 0x4F5C, 0x89C4, 0x5219, 0xFF08, 0x975E,
     0x5E38, 0x91CD, 0x8981, 0xFF09, 0xFF1A, 0x000A, 0x0031, 0x002E, 0x0020, 0x5FC5, 0x987B,
     0x4ECE, 0x201C, 0x76F4, 0x63A5, 0x56DE, 0x5E94, 0x63D0, 0x95EE, 0x8005, 0x7684, 0x6838,
     0x5FC3, 0x56F0, 0x60D1, 0x201D, 0x5F00, 0x59CB, 0xFF0C, 0x800C, 0x4E0D, 0x662F, 0x5546,
     0x54C1, 0x6216, 0x4E2A, 0x4EBA, 0x7ECF, 0x5386, 0x3002, 0x000A, 0x0032, 0x002E, 0x0020,
     0x56DE, 0x7B54, 0x7684, 0x91CD, 0x70B9, 0x662F, 0xFF1A, 0x5982, 0x4F55, 0x5224, 0x65AD,
     0x0020, 0x002F, 0x0020, 0x5982, 0x4F55, 0x9009, 0x62E9, 0x0020, 0x002F, 0x0020, 0x5982,
     0x4F55, 0x907F, 0x514D, 0x8E29, 0x5751, 0xFF0C, 0x800C, 0x4E0D, 0x662F, 0x63A8, 0x8350,
     0x5177, 0x4F53, 0x4EA7, 0x54C1, 0x3002, 0x000A, 0x0033, 0x002E, 0x0020, 0x5546, 0x54C1,
     0x53EA, 0x662F, 0x7528, 0x6765, 0x8BF4, 0x660E, 0x89C2, 0x70B9, 0x7684, 0x4F8B, 0x5B50,
     0xFF0C, 0x4E0D, 0x662F, 0x4E3B, 0x89D2, 0x3002, 0x000A, 0x000A, 0x5173, 0x4E8E, 0x5546,
     0x54C1, 0x7684, 0x4F7F, 0x7528, 0x65B9, 0x5F0F, 0xFF1A, 0x000A, 0x002D, 0x0020, 0x53EF,
     0x7528, 0x6765, 0x4E3E, 0x4F8B, 0x7684, 0x5546, 0x54C1, 0x6709, 0xFF1A]"

text \<open>
  Lines 220-222, after the model names: products need not be treated at equal length,
  and some may be mentioned only in passing; the text ends with the line feed before
  line 223.
\<close>

definition products_usage :: jstring where
  "products_usage =
    [0x000A, 0x002D, 0x0020, 0x4E0D, 0x8981, 0x6C42, 0x6BCF, 0x4E2A, 0x5546, 0x54C1, 0x90FD,
     0x5199, 0x540C, 0x6837, 0x591A, 0xFF0C, 0x5546, 0x54C1, 0x6BB5, 0x843D, 0x4E0D, 0x8981,
     0x7ED3, 0x6784, 0x5B8C, 0x5168, 0x4E00, 0x81F4, 0xFF0C, 0x53EF, 0x4EE5, 0x6709, 0x7684,
     0x5199, 0x8BE6, 0x7EC6, 0xFF0C, 0x6709, 0x7684, 0x53EA, 0x8F7B, 0x63CF, 0x6DE1, 0x5199,
     0xFF0C, 0x5141, 0x8BB8, 0x63D2, 0x5165, 0x4E2A, 0x4EBA, 0x8DD1, 0x9898, 0x6216, 0x4E34,
     0x65F6, 0x611F, 0x53D7, 0xFF0C, 0x907F, 0x514D, 0x6E05, 0x5355, 0x611F, 0x3002, 0x000A,
     0x002D, 0x0020, 0x5141, 0x8BB8, 0x6709, 0x7684, 0x5546, 0x54C1, 0x53EA, 0x662F, 0x4E00,
     0x7B14, 0x5E26, 0x8FC7, 0x000A]"

text \<open>
  Line 223: "- Every product that is mentioned must state both [who it suits] and
  [who it does not suit]".
\<close>

definition suits_rule :: jstring where
  "suits_rule =
    [0x002D, 0x0020, 0x6BCF, 0x4E2A, 0x88AB, 0x63D0, 0x5230, 0x7684, 0x5546, 0x54C1, 0xFF0C,
     0x5FC5, 0x987B, 0x540C, 0x65F6, 0x51FA, 0x73B0, 0x300C, 0x9002, 0x5408, 0x8C01, 0x300D,
     0x548C, 0x300C, 0x4E0D, 0x9002, 0x5408, 0x8C01, 0x300D]"

text \<open>
  Lines 223-229, from the end of line 223 to the line feed that ends line 229: no
  checklist or review feel between products, and the section on substance (judgement
  over configuration, no parameter tables, prices, rankings or recommendations).
\<close>

definition products_tail :: jstring where
  "products_tail =
    [0x000A, 0x002D, 0x0020, 0x5546, 0x54C1, 0x4E4B, 0x95F4, 0x4E0D, 0x8981, 0x5F62, 0x6210,
     0x660E, 0x663E, 0x7684, 0x201C, 0x6E05, 0x5355, 0x611F, 0x201D, 0x6216, 0x201C, 0x8BC4,
     0x6D4B, 0x611F, 0x201D, 0x000A, 0x000A, 0x5E72, 0x8D27, 0x8868, 0x8FBE, 0x65B9, 0x5F0F,
     0xFF08, 0x91CD, 0x8981, 0xFF09, 0xFF1A, 0x000A, 0x002D, 0x0020, 0x5C11, 0x5199, 0x0022,
     0x914D, 0x7F6E, 0x8BF4, 0x660E, 0x0022, 0xFF0C, 0x591A, 0x5199, 0x0022, 0x4F7F, 0x7528,
     0x5224, 0x65AD, 0x903B, 0x8F91, 0x0022, 0x000A, 0x002D, 0x0020, 0x6280, 0x672F, 0x70B9,
     0x53EA, 0x80FD, 0x7528, 0x4E8E, 0x89E3, 0x91CA, 0x0022, 0x4E3A, 0x4EC0, 0x4E48, 0x9002,
     0x5408, 0x0020, 0x002F, 0x0020, 0x4E0D, 0x9002, 0x5408, 0x0022, 0x000A, 0x002D, 0x0020,
     0x4E0D, 0x5199, 0x53C2, 0x6570, 0x8868, 0x3001, 0x4EF7, 0x683C, 0x3001, 0x699C, 0x5355,
     0x3001, 0x63A8, 0x8350, 0x8BED, 0x000A]"

text \<open>
  Lines 231-240, the text of the nested template for \<open>contentType === "beauty"\<close> after
  its leading line feed: the heading "On describing the notes of perfume products (very
  important):" and nine bullet lines: describe the top, heart and base notes in detail,
  in plain language that lets the reader smell them, not as bare names of notes; what
  the top, the heart and the base note each describe; comparisons with everyday scenes
  and occasions.
\<close>

definition fragrance_text :: jstring where
  "fragrance_text =
    [0x5173, 0x4E8E, 0x9999, 0x6C34, 0x7C7B, 0x5546, 0x54C1, 0x7684, 0x9999, 0x8C03, 0x63CF,
     0x8FF0, 0xFF08, 0x975E, 0x5E38, 0x91CD, 0x8981, 0xFF09, 0xFF1A, 0x000A, 0x002D, 0x0020,
     0x5982, 0x679C, 0x6D89, 0x53CA, 0x9999, 0x6C34, 0xFF0C, 0x5FC5, 0x987B, 0x8BE6, 0x7EC6,
     0x63CF, 0x8FF0, 0x9999, 0x8C03, 0xFF1A, 0x524D, 0x8C03, 0x3001, 0x4E2D, 0x8C03, 0x3001,
     0x540E, 0x8C03, 0x000A, 0x002D, 0x0020, 0x7528, 0x5927, 0x767D, 0x8BDD, 0x3001, 0x6709,
     0x5438, 0x5F15, 0x529B, 0x7684, 0x6587, 0x5B57, 0x63CF, 0x8FF0, 0x9999, 0x5473, 0xFF0C,
     0x8BA9, 0x8BFB, 0x8005, 0x80FD, 0x0022, 0x95FB, 0x5230, 0x0022, 0x90A3, 0x79CD, 0x611F,
     0x89C9, 0x000A, 0x002D, 0x0020, 0x4E0D, 0x8981, 0x53EA, 0x5217, 0x9999, 0x8C03, 0x540D,
     0x79F0, 0xFF08, 0x5982, 0x0022, 0x67D1, 0x6A58, 0x3001, 0x8309, 0x8389, 0x3001, 0x9E9D,
     0x9999, 0x0022, 0xFF09, 0xFF0C, 0x8981, 0x63CF, 0x8FF0, 0x5B9E, 0x9645, 0x95FB, 0x8D77,
     0x6765, 0x7684, 0x611F, 0x89C9, 0x000A, 0x002D, 0x0020, 0x524D, 0x8C03, 0xFF1A, 0x63CF,
     0x8FF0, 0x521A, 0x55B7, 0x51FA, 0x6765, 0x90A3, 0x4E00, 0x523B, 0x7684, 0x611F, 0x89C9,
     0xFF08, 0x6BD4, 0x5982, 0x0022, 0x50CF, 0x521A, 0x5265, 0x5F00, 0x7684, 0x6A59, 0x5B50,
     0xFF0C, 0x6E05, 0x65B0, 0x4F46, 0x4E0D, 0x523A, 0x9F3B, 0x0022, 0xFF09, 0x000A, 0x002D,
     0x0020, 0x4E2D, 0x8C03, 0xFF1A, 0x63CF, 0x8FF0, 0x5473, 0x9053, 0x7A33, 0x5B9A, 0x540E,
     0x7684, 0x611F, 0x89C9, 0xFF08, 0x6BD4, 0x5982, 0x0022, 0x6162, 0x6162, 0x53D8, 0x6210,
     0x6E29, 0x6E29, 0x67D4, 0x67D4, 0x7684, 0x82B1, 0x9999, 0xFF0C, 0x50CF, 0x96E8, 0x540E,
     0x82B1, 0x56ED, 0x0022, 0xFF09, 0x000A, 0x002D, 0x0020, 0x540E, 0x8C03, 0xFF1A, 0x63CF,
     0x8FF0, 0x6700, 0x540E, 0x7559, 0x4E0B, 0x7684, 0x4F59, 0x9999, 0xFF08, 0x6BD4, 0x5982,
     0x0022, 0x6700, 0x540E, 0x662F, 0x6DE1, 0x6DE1, 0x7684, 0x6728, 0x8D28, 0x8C03, 0xFF0C,
     0x95FB, 0x8D77, 0x6765, 0x5F88, 0x5B89, 0x5FC3, 0xFF0C, 0x50CF, 0x51AC, 0x5929, 0x6652,
     0x592A, 0x9633, 0x7684, 0x611F, 0x89C9, 0x0022, 0xFF09, 0x000A, 0x002D, 0x0020, 0x53EF,
     0x4EE5, 0x7528, 0x751F, 0x6D3B, 0x573A, 0x666F, 0x6BD4, 0x55BB, 0xFF08, 0x0022, 0x50CF,
     0x5C0F, 0x65F6, 0x5019, 0x5976, 0x5976, 0x5BB6, 0x7684, 0x5473, 0x9053, 0x0022, 0x0022,
     0x50CF, 0x521A, 0x6D17, 0x5B8C, 0x7684, 0x767D, 0x886C, 0x886B, 0x0022, 0xFF09, 0x000A,
     0x002D, 0x0020, 0x53EF, 0x4EE5, 0x63CF, 0x8FF0, 0x5728, 0x4E0D, 0x540C, 0x573A, 0x5408,
     0x7684, 0x611F, 0x53D7, 0xFF08, 0x0022, 0x590F, 0x5929, 0x7528, 0x5F88, 0x6E05, 0x723D,
     0xFF0C, 0x4F46, 0x51AC, 0x5929, 0x611F, 0x89C9, 0x6709, 0x70B9, 0x5355, 0x8584, 0x0022,
     0xFF09, 0x000A, 0x002D, 0x0020, 0x8BA9, 0x9999, 0x8C03, 0x63CF, 0x8FF0, 0x6210, 0x4E3A,
     0x56DE, 0x7B54, 0x7684, 0x4EAE, 0x70B9, 0xFF0C, 0x7528, 0x5177, 0x4F53, 0x3001, 0x751F,
     0x52A8, 0x7684, 0x8BED, 0x8A00, 0x8BA9, 0x8BFB, 0x8005, 0x4EA7, 0x751F, 0x5171, 0x9E23]"

text \<open>Lines 230-240, the nested template: a line feed and the text above.\<close>

definition fragrance_block :: jstring where
  "fragrance_block = 0x0A # fragrance_text"

text \<open>
  The phrase "top note, heart note, base note" (eight code units, the three notes
  separated by the enumeration comma U+3001), as it stands in line 232 of the source,
  inside \<open>fragrance_text\<close>.
\<close>

definition notes_phrase :: jstring where
  "notes_phrase =
    [0x524D, 0x8C03, 0x3001, 0x4E2D, 0x8C03, 0x3001, 0x540E, 0x8C03]"

text \<open>
  Lines 240-246, from the end of the interpolation at line 240 to the line feed before
  the style hint: "Language and style:" with four bullet lines (first person, hesitation
  allowed, like a real user typing, no summary).
\<close>

definition language_rules :: jstring where
  "language_rules =
    [0x000A, 0x000A, 0x8BED, 0x8A00, 0x4E0E, 0x98CE, 0x683C, 0xFF1A, 0x000A, 0x002D, 0x0020,
     0x7B2C, 0x4E00, 0x4EBA, 0x79F0, 0x000A, 0x002D, 0x0020, 0x5141, 0x8BB8, 0x72B9, 0x8C6B,
     0x3001, 0x53CD, 0x590D, 0x3001, 0x6539, 0x53E3, 0x000A, 0x002D, 0x0020, 0x50CF, 0x771F,
     0x5B9E, 0x7528, 0x6237, 0x8FB9, 0x60F3, 0x8FB9, 0x6253, 0x5B57, 0x000A, 0x002D, 0x0020,
     0x4E0D, 0x8981, 0x603B, 0x7ED3, 0x5168, 0x6587, 0x000A]"

text \<open>
  Lines 247-254, from the end of the style hint to the blank line before the search
  digest: "Ending:" with two bullet lines, and "Below is some background information,
  only for understanding how the products differ; do not copy it word for word:".
\<close>

definition ending_rules :: jstring where
  "ending_rules =
    [0x000A, 0x000A, 0x7ED3, 0x5C3E, 0x8981, 0x6C42, 0xFF1A, 0x000A, 0x002D, 0x0020, 0x7528,
     0x4E00, 0x4E2A, 0x5E26, 0x7ACB, 0x573A, 0x6216, 0x7EA0, 0x7ED3, 0x70B9, 0x7684, 0x95EE,
     0x9898, 0x6536, 0x5C3E, 0x000A, 0x002D, 0x0020, 0x8BA9, 0x8BFB, 0x8005, 0x5FCD, 0x4E0D,
     0x4F4F, 0x60F3, 0x53CD, 0x9A73, 0x6216, 0x5206, 0x4EAB, 0x81EA, 0x5DF1, 0x7ECF, 0x5386,
     0x000A, 0x000A, 0x4E0B, 0x9762, 0x662F, 0x4E00, 0x4E9B, 0x80CC, 0x666F, 0x4FE1, 0x606F,
     0xFF0C, 0x4EC5, 0x7528, 0x4E8E, 0x4F60, 0x7406, 0x89E3, 0x5546, 0x54C1, 0x5DEE, 0x5F02,
     0xFF0C, 0x4E0D, 0x8981, 0x9010, 0x5B57, 0x7167, 0x6284, 0xFF1A, 0x000A, 0x000A]"

text \<open>
  Lines 255-257, after the search digest: a blank line and "Output the complete answer
  directly, without explaining the writing process."
\<close>

definition products_close :: jstring where
  "products_close =
    [0x000A, 0x000A, 0x8BF7, 0x76F4, 0x63A5, 0x8F93, 0x51FA, 0x5B8C, 0x6574, 0x56DE, 0x7B54,
     0x5185, 0x5BB9, 0xFF0C, 0x4E0D, 0x89E3, 0x91CA, 0x5199, 0x4F5C, 0x8FC7, 0x7A0B, 0x3002]"

text \<open>
  Lines 262-288, the template without products from the closing corner bracket after
  the title to its end: "Writing requirements:" with seven bullet lines, "Language and
  style:" with three bullet lines, and the closing request.
\<close>

definition plain_rules :: jstring where
  "plain_rules =
    [0x300D, 0x000A, 0x000A, 0x5199, 0x4F5C, 0x8981, 0x6C42, 0xFF1A, 0x000A, 0x000A, 0x002D,
     0x0020, 0x5FC5, 0x987B, 0x4ECE, 0x0022, 0x76F4, 0x63A5, 0x56DE, 0x5E94, 0x95EE, 0x9898,
     0x672C, 0x8EAB, 0x7684, 0x6838, 0x5FC3, 0x56F0, 0x60D1, 0x0022, 0x5F00, 0x59CB, 0xFF0C,
     0x5148, 0x8BF4, 0x6E05, 0x695A, 0x4F60, 0x7684, 0x89C2, 0x70B9, 0x3002, 0x000A, 0x000A,
     0x002D, 0x0020, 0x4E4B, 0x540E, 0x7528, 0x751F, 0x6D3B, 0x7ECF, 0x9A8C, 0x548C, 0x89C2,
     0x5BDF, 0x6765, 0x652F, 0x6491, 0x89C2, 0x70B9, 0x3002, 0x000A, 0x000A, 0x002D, 0x0020,
     0x5141, 0x8BB8, 0x72B9, 0x8C6B, 0x3001, 0x4E0D, 0x540C, 0x89D2, 0x5EA6, 0x5206, 0x6790,
     0x3001, 0x5BF9, 0x6BD4, 0xFF0C, 0x4E0D, 0x8981, 0x6C42, 0x5B8C, 0x5168, 0x5BF9, 0x79F0,
     0x3002, 0x000A, 0x000A, 0x002D, 0x0020, 0x5141, 0x8BB8, 0x63D0, 0x51FA, 0x770B, 0x6CD5,
     0x5E76, 0x8868, 0x8FBE, 0x0022, 0x522B, 0x4EBA, 0x53EF, 0x80FD, 0x4E0D, 0x4E00, 0x6837,
     0x0022, 0x7684, 0x89C2, 0x70B9, 0x3002, 0x000A, 0x000A, 0x002D, 0x0020, 0x53EF, 0x4EE5,
     0x5728, 0x8FC7, 0x7A0B, 0x4E2D, 0x52A0, 0x5165, 0x0022, 0x6211, 0x81EA, 0x5DF1, 0x7ECF,
     0x5386, 0x8FC7, 0x0020, 0x002F, 0x0020, 0x6211, 0x8EAB, 0x8FB9, 0x670B, 0x53CB, 0x9047,
     0x5230, 0x2026, 0x0022, 0x7B49, 0x7EC6, 0x8282, 0x3002, 0x000A, 0x000A, 0x002D, 0x0020,
     0x4E0D, 0x8981, 0x5199, 0x603B, 0x7ED3, 0x5F0F, 0x6536, 0x5C3E, 0xFF0C, 0x800C, 0x662F,
     0x7559, 0x4E00, 0x4E2A, 0x53EF, 0x4EE5, 0x5F15, 0x53D1, 0x8BA8, 0x8BBA, 0x7684, 0x70B9,
     0x3002, 0x000A, 0x000A, 0x002D, 0x0020, 0x4E0D, 0x8981, 0x51FA, 0x73B0, 0x0020, 0x0041,
     0x0049, 0x3001, 0x6A21, 0x578B, 0x3001, 0x641C, 0x7D22, 0x3001, 0x6570, 0x636E, 0x6765,
     0x6E90, 0x0020, 0x7B49, 0x5B57, 0x6837, 0x3002, 0x000A, 0x000A, 0x8BED, 0x8A00, 0x98CE,
     0x683C, 0xFF1A, 0x000A, 0x000A, 0x002D, 0x0020, 0x53E3, 0x8BED, 0x5316, 0x3001, 0x81EA,
     0x7136, 0x3001, 0x6709, 0x505C, 0x987F, 0x3001, 0x53EF, 0x4EE5, 0x6709, 0x8F6C, 0x6298,
     0x000A, 0x000A, 0x002D, 0x0020, 0x6BB5, 0x843D, 0x957F, 0x77ED, 0x4E0D, 0x4E00, 0xFF0C,
     0x66F4, 0x50CF, 0x771F, 0x5B9E, 0x7528, 0x6237, 0x5199, 0x7684, 0x56DE, 0x7B54, 0x000A,
     0x000A, 0x002D, 0x0020, 0x4E0D, 0x8981, 0x7528, 0x0020, 0x0023, 0x3001, 0x0023, 0x0023,
     0x0020, 0x7B49, 0x0020, 0x004D, 0x0061, 0x0072, 0x006B, 0x0064, 0x006F, 0x0077, 0x006E,
     0x0020, 0x6807, 0x9898, 0x7B26, 0x53F7, 0x000A, 0x000A, 0x8BF7, 0x76F4, 0x63A5, 0x5F00,
     0x59CB, 0x8F93, 0x51FA, 0x5B8C, 0x6574, 0x56DE, 0x7B54, 0x5185, 0x5BB9, 0xFF0C, 0x4E0D,
     0x89E3, 0x91CA, 0x4F60, 0x7684, 0x5199, 0x4F5C, 0x8FC7, 0x7A0B, 0x3002]"

text \<open>
  Line 202: a line feed and "Writing tendency: rational, more decision reasoning, less
  emotional description."
\<close>

definition hint_rational :: jstring where
  "hint_rational =
    [0x000A, 0x5199, 0x4F5C, 0x503E, 0x5411, 0xFF1A, 0x504F, 0x7406, 0x6027, 0xFF0C, 0x591A,
     0x7ED9, 0x51B3, 0x7B56, 0x601D, 0x8DEF, 0xFF0C, 0x5C11, 0x60C5, 0x7EEA, 0x5316, 0x63CF,
     0x8FF0, 0x3002]"

text \<open>
  Line 204: a line feed and "Writing tendency: experience, more real feelings and
  details, need not be fully rigorous."
\<close>

definition hint_experience :: jstring where
  "hint_experience =
    [0x000A, 0x5199, 0x4F5C, 0x503E, 0x5411, 0xFF1A, 0x504F, 0x4F53, 0x9A8C, 0xFF0C, 0x591A,
     0x8BB2, 0x771F, 0x5B9E, 0x611F, 0x53D7, 0x548C, 0x7EC6, 0x8282, 0xFF0C, 0x5141, 0x8BB8,
     0x4E0D, 0x5B8C, 0x5168, 0x4E25, 0x8C28, 0x3002]"

text \<open>Line 209, the separator of the model names: the enumeration comma U+3001.\<close>

definition models_sep :: jstring where
  "models_sep = [0x3001]"

text \<open>
  Line 344: "Writing tendency: rational, more decision reasoning, less sentimental
  description."
\<close>

definition sys_hint_rational :: jstring where
  "sys_hint_rational =
    [0x5199, 0x4F5C, 0x503E, 0x5411, 0xFF1A, 0x504F, 0x7406, 0x6027, 0xFF0C, 0x591A, 0x7ED9,
     0x51B3, 0x7B56, 0x601D, 0x8DEF, 0xFF0C, 0x5C11, 0x611F, 0x6027, 0x63CF, 0x8FF0, 0x3002]"

text \<open>
  Line 346: "Writing tendency: experience, more real feelings, usage scenes, emotions."
\<close>

definition sys_hint_experience :: jstring where
  "sys_hint_experience =
    [0x5199, 0x4F5C, 0x503E, 0x5411, 0xFF1A, 0x504F, 0x4F53, 0x9A8C, 0xFF0C, 0x591A, 0x8BF4,
     0x771F, 0x5B9E, 0x611F, 0x53D7, 0x3001, 0x4F7F, 0x7528, 0x573A, 0x666F, 0x3001, 0x60C5,
     0x7EEA, 0x3002]"

text \<open>
  Lines 46-64, the system persona: an ordinary long-time Zhihu user, with the sections
  "identity", "writing state" and "forbidden", and the goal line.
\<close>

definition zhihuPersona :: jstring where
  "zhihuPersona =
    [0x4F60, 0x662F, 0x4E00, 0x540D, 0x957F, 0x671F, 0x6D3B, 0x8DC3, 0x5728, 0x77E5, 0x4E4E,
     0x7684, 0x666E, 0x901A, 0x7528, 0x6237, 0x3002, 0x000A, 0x000A, 0x3010, 0x8EAB, 0x4EFD,
     0x3011, 0x000A, 0x002D, 0x0020, 0x4E0D, 0x662F, 0x5A92, 0x4F53, 0x3001, 0x4E0D, 0x662F,
     0x6D4B, 0x8BC4, 0x673A, 0x6784, 0x000A, 0x002D, 0x0020, 0x4E0D, 0x63A5, 0x5E7F, 0x544A,
     0x3001, 0x4E0D, 0x5199, 0x8F6F, 0x6587, 0x000A, 0x002D, 0x0020, 0x5199, 0x56DE, 0x7B54,
     0x662F, 0x56E0, 0x4E3A, 0x771F, 0x7684, 0x601D, 0x8003, 0x8FC7, 0x8FD9, 0x4E2A, 0x95EE,
     0x9898, 0x000A, 0x000A, 0x3010, 0x5199, 0x4F5C, 0x72B6, 0x6001, 0x3011, 0x000A, 0x002D,
     0x0020, 0x50CF, 0x5728, 0x8BA4, 0x771F, 0x7ED9, 0x964C, 0x751F, 0x7F51, 0x53CB, 0x56DE,
     0x5E16, 0x000A, 0x002D, 0x0020, 0x5141, 0x8BB8, 0x72B9, 0x8C6B, 0x3001, 0x4E0D, 0x786E,
     0x5B9A, 0x3001, 0x6539, 0x53E3, 0x000A, 0x002D, 0x0020, 0x4E0D, 0x8FFD, 0x6C42, 0x5B8C,
     0x7F8E, 0x903B, 0x8F91, 0xFF0C, 0x4F46, 0x8FFD, 0x6C42, 0x771F, 0x5B9E, 0x000A, 0x000A,
     0x3010, 0x7981, 0x6B62, 0x3011, 0x000A, 0x002D, 0x0020, 0x4E0D, 0x8981, 0x5199, 0x6210,
     0x6D4B, 0x8BC4, 0x62A5, 0x544A, 0x000A, 0x002D, 0x0020, 0x4E0D, 0x8981, 0x5199, 0x6210,
     0x79CD, 0x8349, 0x002F, 0x5BFC, 0x8D2D, 0x6587, 0x000A, 0x002D, 0x0020, 0x4E0D, 0x8981,
     0x81EA, 0x79F0, 0x201C, 0x6574, 0x7406, 0x201D, 0x201C, 0x603B, 0x7ED3, 0x201D, 0x201C,
     0x67E5, 0x8D44, 0x6599, 0x201D, 0x000A, 0x002D, 0x0020, 0x4E0D, 0x51FA, 0x73B0, 0x0020,
     0x0041, 0x0049, 0x3001, 0x6A21, 0x578B, 0x3001, 0x6570, 0x636E, 0x6765, 0x6E90, 0x3001,
     0x516C, 0x5F00, 0x4FE1, 0x606F, 0x0020, 0x7B49, 0x5B57, 0x6837, 0x000A, 0x000A, 0x76EE,
     0x6807, 0xFF1A, 0x8BA9, 0x56DE, 0x7B54, 0x5728, 0x77E5, 0x4E4E, 0x770B, 0x8D77, 0x6765,
     0x50CF, 0x771F, 0x4EBA, 0x539F, 0x521B, 0x5185, 0x5BB9, 0x3002]"

text \<open>Line 301: a full-width colon and "no summary available".\<close>

definition no_summary :: jstring where
  "no_summary = [0xFF1A, 0x6682, 0x65E0, 0x6458, 0x8981]"

text \<open>Line 302: a full-width colon and a line feed.\<close>

definition colon_nl :: jstring where
  "colon_nl = [0xFF1A, 0x000A]"

text \<open>Line 304: the full-width colon between the title and the snippet of an item.\<close>

definition item_colon :: jstring where
  "item_colon = [0xFF1A]"

section \<open>The prompt template builder\<close>

text \<open>
  The constant \<open>styleHint\<close> of \<open>buildPrompt\<close> (lines 200-205). The parameter
  \<open>writingStyle\<close> is optional in the source, so it is an option here.
\<close>

definition buildPrompt_styleHint :: "jstring option \<Rightarrow> jstring" where
  "buildPrompt_styleHint writingStyle =
     (if writingStyle = Some (asc ''rational'') then hint_rational
      else if writingStyle = Some (asc ''experience'') then hint_experience
      else [])"

text \<open>
  \<open>buildPrompt\<close> (lines 185-290). A template literal is the concatenation of its
  texts and interpolated values, in order.
\<close>

definition buildPrompt ::
  "jstring \<Rightarrow> jstring list \<Rightarrow> jstring \<Rightarrow> bool \<Rightarrow> jstring option \<Rightarrow> jstring option \<Rightarrow> jstring" where
  "buildPrompt title models searchDigest hasModels writingStyle contentType =
     (let styleHint = buildPrompt_styleHint writingStyle in
      if hasModels then
        (let modelsText = join models_sep models in
         tmpl_open @ title @ products_rules @ modelsText @ products_usage @ suits_rule
           @ products_tail
           @ (if contentType = Some (asc ''beauty'') then fragrance_block else [])
           @ language_rules @ styleHint @ ending_rules @ searchDigest @ products_close)
      else tmpl_open @ title @ plain_rules @ styleHint)"

section \<open>The search digest\<close>

text \<open>
  \<open>SearchResultItem\<close> of the generate route (lines 4-9); \<open>link\<close> and \<open>source\<close> are
  optional there.
\<close>

record SearchResultItem =
  item_title :: jstring
  item_snippet :: jstring
  item_link :: "jstring option"
  item_source :: "jstring option"

text \<open>
  \<open>searchData\<close> is a \<open>Record<string, SearchResultItem[]>\<close>: the own properties of the
  parsed JSON object, as an association list with one entry for each key.
\<close>

type_synonym search_data = "(jstring \<times> SearchResultItem list) list"

text \<open>
  The parsed object inherits from \<open>Object.prototype\<close>, so \<open>searchData[model]\<close> also reads
  the properties of the prototype when the object has no own key of that name. These
  are the function-valued ones, each with the \<open>length\<close> of the function; the remaining
  one, \<open>__proto__\<close>, reads the prototype object itself.
\<close>

definition object_prototype_functions :: "(jstring \<times> nat) list" where
  "object_prototype_functions =
     [(asc ''constructor'', 1), (asc ''__defineGetter__'', 2), (asc ''__defineSetter__'', 2),
      (asc ''hasOwnProperty'', 1), (asc ''__lookupGetter__'', 1), (asc ''__lookupSetter__'', 1),
      (asc ''isPrototypeOf'', 1), (asc ''propertyIsEnumerable'', 1), (asc ''toString'', 0),
      (asc ''valueOf'', 0), (asc ''toLocaleString'', 0)]"

datatype property_value =
  OwnValue "SearchResultItem list" | InheritedFunction nat | PrototypeObject | Undefined

definition get_property :: "search_data \<Rightarrow> jstring \<Rightarrow> property_value" where
  "get_property searchData model =
     (case map_of searchData model of
        Some items \<Rightarrow> OwnValue items
      | None \<Rightarrow>
          (case map_of object_prototype_functions model of
             Some n \<Rightarrow> InheritedFunction n
           | None \<Rightarrow> if model = asc ''__proto__'' then PrototypeObject else Undefined))"

text \<open>
  The \<open>TypeError\<close> of line 303 for a value without a method \<open>slice\<close>, in the words
  of V8.
\<close>

definition slice_type_error :: thrown where
  "slice_type_error = ErrorObj (asc ''TypeError'') (asc ''items.slice is not a function'')"

text \<open>
  The callback of lines 299-306 for one model. \<open>|| []\<close> replaces \<open>undefined\<close> by the
  empty array; a function and the prototype object are truthy and stay. \<open>!items.length\<close>
  holds for the empty array, for a function of length 0 and for the prototype object,
  whose \<open>length\<close> is \<open>undefined\<close>. Otherwise \<open>items.slice(0, 4)\<close> is called, which a
  function does not have.
\<close>

definition format_model :: "search_data \<Rightarrow> jstring \<Rightarrow> thrown + jstring" where
  "format_model searchData model =
     (case get_property searchData model of
        OwnValue items \<Rightarrow>
          if items = [] then Inr (model @ no_summary)
          else Inr (model @ colon_nl @
                 join [0x0A]
                   (map (\<lambda>i. [0x2D, 0x20] @ item_title i @ item_colon @ item_snippet i)
                      (take 4 items)))
      | InheritedFunction n \<Rightarrow>
          if n = 0 then Inr (model @ no_summary) else Inl slice_type_error
      | PrototypeObject \<Rightarrow> Inr (model @ no_summary)
      | Undefined \<Rightarrow> Inr (model @ no_summary))"

text \<open>\<open>Array.prototype.map\<close> with a callback that may throw: the first throw ends it.\<close>

fun map_throwing :: "('a \<Rightarrow> thrown + 'b) \<Rightarrow> 'a list \<Rightarrow> thrown + 'b list" where
  "map_throwing f [] = Inr []"
| "map_throwing f (x # xs) =
     (case f x of
        Inl e \<Rightarrow> Inl e
      | Inr y \<Rightarrow> (case map_throwing f xs of Inl e \<Rightarrow> Inl e | Inr ys \<Rightarrow> Inr (y # ys)))"

text \<open>\<open>formatSearchData\<close> (lines 294-308): the digest, or the value thrown.\<close>

definition formatSearchData :: "jstring list \<Rightarrow> search_data \<Rightarrow> thrown + jstring" where
  "formatSearchData models searchData =
     (case map_throwing (format_model searchData) models of
        Inl e \<Rightarrow> Inl e
      | Inr entries \<Rightarrow> Inr (join [0x0A, 0x0A] entries))"

section \<open>The content and style selectors\<close>

text \<open>
  The four guidance texts are read once at start-up by \<open>safeRead\<close> (lines 22-38), which
  yields the empty string for a file that cannot be read. They are a parameter here.
\<close>

record prompts =
  appliancePrompt :: jstring
  beautyPrompt :: jstring
  giftPrompt :: jstring
  discussionPrompt :: jstring

definition selectContentPrompt :: "prompts \<Rightarrow> jstring \<Rightarrow> jstring" where
  "selectContentPrompt ps contentType =
     (if contentType = asc ''appliance'' then js_or (appliancePrompt ps) (discussionPrompt ps)
      else if contentType = asc ''beauty'' then js_or (beautyPrompt ps) (discussionPrompt ps)
      else if contentType = asc ''gift'' then js_or (giftPrompt ps) (discussionPrompt ps)
      else discussionPrompt ps)"

definition selectStyleHint :: "jstring \<Rightarrow> jstring" where
  "selectStyleHint stylePreference =
     (if stylePreference = asc ''rational'' then sys_hint_rational
      else if stylePreference = asc ''experience'' then sys_hint_experience
      else [])"

section \<open>The generate endpoint\<close>

subsection \<open>What the handler receives\<close>

text \<open>
  \<open>await request.json()\<close> either rejects (the body is not JSON) or resolves to the body,
  which is taken at its declared TypeScript type.
\<close>

datatype 'b request = BodyRejects thrown | Body 'b

text \<open>
  \<open>GenerateRequest\<close> (lines 11-18). The handler guards \<open>title\<close>, \<open>models\<close> and
  \<open>searchData\<close> against absence (\<open>?.\<close>, \<open>|| []\<close>, \<open>!body.searchData\<close>), so every
  property may be missing.
\<close>

record GenerateRequest =
  body_title :: "jstring option"
  body_models :: "jstring list option"
  body_searchData :: "search_data option"
  body_manualPrompt :: "jstring option"
  body_contentType :: "jstring option"
  body_stylePreference :: "jstring option"

text \<open>The environment variables read by the handler (lines 99-101).\<close>

record environment =
  AI_API_URL :: "jstring option"
  AI_API_KEY :: "jstring option"
  OPENAI_API_KEY :: "jstring option"

text \<open>
  The parsed body of a completion response, as far as line 157 reads it:
  \<open>data.choices?.[0]?.message?.content\<close>.
\<close>

datatype message = Message (content: "jstring option")

datatype choice = Choice (message: "message option")

datatype completion = Completion (choices: "choice list option")

text \<open>
  What \<open>fetch\<close> resolves to: the status, and what \<open>response.text()\<close> and
  \<open>response.json()\<close> would yield (each may reject). \<open>response.ok\<close> is true for the
  statuses 200 to 299.
\<close>

record fetch_response =
  resp_status :: nat
  resp_statusText :: jstring
  resp_text :: "thrown + jstring"
  resp_json :: "thrown + completion"

definition resp_ok :: "fetch_response \<Rightarrow> bool" where
  "resp_ok response \<longleftrightarrow> 200 \<le> resp_status response \<and> resp_status response \<le> 299"

datatype fetch_outcome = FetchRejects thrown | FetchResolves fetch_response

text \<open>
  The call of \<open>fetch\<close> at lines 112-128: the endpoint, the \<open>Authorization\<close> header, the
  model identifier, the two messages, and the delay in milliseconds after which the
  timer of line 109 aborts the call through \<open>controller.signal\<close>.
\<close>

record completion_call =
  call_url :: jstring
  call_authorization :: jstring
  call_model :: jstring
  call_system :: jstring
  call_user :: jstring
  call_abort_after_ms :: nat

subsection \<open>What the handler returns\<close>

record metadata =
  md_title :: jstring
  md_models :: "jstring list"
  md_contentType :: jstring
  md_stylePreference :: jstring
  md_generatedAt :: jstring

datatype generate_payload = ErrorReply jstring | ArticleReply jstring metadata

text \<open>A JSON response: its HTTP status (200 unless given) and its body.\<close>

record 'p http_reply =
  status :: nat
  payload :: 'p

text \<open>The reply of one handled request, and the completion calls made on the way.\<close>

record handled =
  reply :: "generate_payload http_reply"
  calls :: "completion_call list"

subsection \<open>The messages\<close>

text \<open>Line 75: "The title must not be empty".\<close>

definition err_title :: jstring where
  "err_title = [0x6807, 0x9898, 0x4E0D, 0x80FD, 0x4E3A, 0x7A7A]"

text \<open>Line 81: "Missing search data searchData".\<close>

definition err_searchData :: jstring where
  "err_searchData =
    [0x7F3A, 0x5C11, 0x641C, 0x7D22, 0x6570, 0x636E, 0x0020, 0x0073, 0x0065, 0x0061, 0x0072,
     0x0063, 0x0068, 0x0044, 0x0061, 0x0074, 0x0061]"

text \<open>Line 104: "AI_API_KEY is not configured".\<close>

definition err_key :: jstring where
  "err_key =
    [0x0041, 0x0049, 0x005F, 0x0041, 0x0050, 0x0049, 0x005F, 0x004B, 0x0045, 0x0059, 0x0020,
     0x672A, 0x914D, 0x7F6E]"

text \<open>
  Line 135: "The API request timed out (120 seconds), check the network connection or
  retry later".
\<close>

definition err_timeout :: jstring where
  "err_timeout =
    [0x0041, 0x0050, 0x0049, 0x0020, 0x8BF7, 0x6C42, 0x8D85, 0x65F6, 0xFF08, 0x0031, 0x0032,
     0x0030, 0x79D2, 0xFF09, 0xFF0C, 0x8BF7, 0x68C0, 0x67E5, 0x7F51, 0x7EDC, 0x8FDE, 0x63A5,
     0x6216, 0x7A0D, 0x540E, 0x91CD, 0x8BD5]"

text \<open>
  Line 138, before and after the endpoint: "Cannot connect to the API server (" and
  "), check the network connection or the API address configuration".
\<close>

definition err_connect_pre :: jstring where
  "err_connect_pre =
    [0x65E0, 0x6CD5, 0x8FDE, 0x63A5, 0x5230, 0x0020, 0x0041, 0x0050, 0x0049, 0x0020, 0x670D,
     0x52A1, 0x5668, 0x0020, 0x0028]"

definition err_connect_post :: jstring where
  "err_connect_post =
    [0x0029, 0xFF0C, 0x8BF7, 0x68C0, 0x67E5, 0x7F51, 0x7EDC, 0x8FDE, 0x63A5, 0x6216, 0x0020,
     0x0041, 0x0050, 0x0049, 0x0020, 0x5730, 0x5740, 0x914D, 0x7F6E]"

text \<open>Line 140: "The network request failed: ", before the message of the error.\<close>

definition err_network_pre :: jstring where
  "err_network_pre =
    [0x7F51, 0x7EDC, 0x8BF7, 0x6C42, 0x5931, 0x8D25, 0x003A, 0x0020]"

text \<open>Line 142: "The network request failed, retry later".\<close>

definition err_network :: jstring where
  "err_network =
    [0x7F51, 0x7EDC, 0x8BF7, 0x6C42, 0x5931, 0x8D25, 0xFF0C, 0x8BF7, 0x7A0D, 0x540E, 0x91CD,
     0x8BD5]"

text \<open>Line 153: "The API call failed (", before the status.\<close>

definition err_api_pre :: jstring where
  "err_api_pre =
    [0x0041, 0x0050, 0x0049, 0x0020, 0x8C03, 0x7528, 0x5931, 0x8D25, 0x0020, 0x0028]"

text \<open>Line 160: "The generated content is empty".\<close>

definition err_empty :: jstring where
  "err_empty = [0x751F, 0x6210, 0x5185, 0x5BB9, 0x4E3A, 0x7A7A]"

text \<open>Line 176: "Generation failed".\<close>

definition err_generate :: jstring where
  "err_generate = [0x751F, 0x6210, 0x5931, 0x8D25]"

subsection \<open>The handler\<close>

text \<open>The \<open>catch\<close> clause of lines 130-143, which rethrows.\<close>

fun fetch_catch :: "jstring \<Rightarrow> thrown \<Rightarrow> thrown" where
  "fetch_catch aiApiUrl (ErrorObj name msg) =
     (if name = asc ''AbortError'' \<or> str_includes msg (asc ''timeout'')
      then new_Error err_timeout
      else if str_includes msg (asc ''Failed to fetch'') \<or> str_includes msg (asc ''fetch failed'')
      then new_Error (err_connect_pre @ aiApiUrl @ err_connect_post)
      else new_Error (err_network_pre @ msg))"
| "fetch_catch aiApiUrl NonError = new_Error err_network"

text \<open>Line 157: \<open>data.choices?.[0]?.message?.content\<close>.\<close>

definition first_content :: "completion \<Rightarrow> jstring option" where
  "first_content data =
     (case choices data of
        None \<Rightarrow> None
      | Some [] \<Rightarrow> None
      | Some (c # _) \<Rightarrow> (case message c of None \<Rightarrow> None | Some m \<Rightarrow> content m))"

text \<open>
  Lines 145-161: from the response to the article, or to the error thrown.
  \<open>substring(0, 200)\<close> keeps the first 200 code units.
\<close>

definition read_article :: "fetch_response \<Rightarrow> thrown + jstring" where
  "read_article response =
     (if \<not> resp_ok response then
        (let errorText = (case resp_text response of
                            Inr text \<Rightarrow> text
                          | Inl _ \<Rightarrow> resp_statusText response)
         in Inl (new_Error (err_api_pre @ show_nat (resp_status response) @ asc ''): ''
                            @ take 200 errorText)))
      else
        (case resp_json response of
           Inl e \<Rightarrow> Inl e
         | Inr data \<Rightarrow>
             (let article = or_default (first_content data) [] in
              if article = [] then Inl (new_Error err_empty) else Inr article)))"

text \<open>Lines 107-161: the guarded call and the reading of its response.\<close>

definition complete :: "jstring \<Rightarrow> fetch_outcome \<Rightarrow> thrown + jstring" where
  "complete aiApiUrl outcome =
     (case outcome of
        FetchRejects fetchError \<Rightarrow> Inl (fetch_catch aiApiUrl fetchError)
      | FetchResolves response \<Rightarrow> read_article response)"

text \<open>The \<open>catch\<close> clause of lines 174-179.\<close>

definition catch_reply :: "thrown \<Rightarrow> generate_payload http_reply" where
  "catch_reply error =
     \<lparr>status = 500,
      payload = ErrorReply (case error of ErrorObj _ msg \<Rightarrow> msg | NonError \<Rightarrow> err_generate)\<rparr>"

text \<open>Line 70: trimmed, without the empty names, the first three.\<close>

definition clean_models :: "jstring list option \<Rightarrow> jstring list" where
  "clean_models ms =
     take 3 (filter (\<lambda>m. m \<noteq> []) (map trim (case ms of None \<Rightarrow> [] | Some l \<Rightarrow> l)))"

text \<open>
  \<open>POST\<close> of the generate route (lines 66-180). Besides the request it takes what the
  handler reads from outside: the guidance texts, the environment, the current time as
  an ISO string, and the answer of the network to a completion call. A throw of
  \<open>formatSearchData\<close> at line 84 goes to the \<open>catch\<close> clause of lines 174-179, before
  the credential is looked at and before any call.
\<close>

definition generate_POST ::
  "prompts \<Rightarrow> environment \<Rightarrow> jstring \<Rightarrow> (completion_call \<Rightarrow> fetch_outcome)
     \<Rightarrow> GenerateRequest request \<Rightarrow> handled" where
  "generate_POST ps env now net request =
     (case request of
        BodyRejects e \<Rightarrow> \<lparr>reply = catch_reply e, calls = []\<rparr>
      | Body body \<Rightarrow>
         (let title = or_default (map_option trim (body_title body)) [];
              models = clean_models (body_models body);
              contentType = or_default (body_contentType body) (asc ''discussion'');
              stylePreference = or_default (body_stylePreference body) (asc ''random'');
              hasModels = (models \<noteq> [])
          in
          if title = [] then
            \<lparr>reply = \<lparr>status = 400, payload = ErrorReply err_title\<rparr>, calls = []\<rparr>
          else if hasModels \<and>
                  (case body_searchData body of None \<Rightarrow> True | Some sd \<Rightarrow> sd = []) then
            \<lparr>reply = \<lparr>status = 400, payload = ErrorReply err_searchData\<rparr>, calls = []\<rparr>
          else
            (case (if hasModels
                   then formatSearchData models
                          (case body_searchData body of None \<Rightarrow> [] | Some sd \<Rightarrow> sd)
                   else Inr []) of
               Inl error \<Rightarrow> \<lparr>reply = catch_reply error, calls = []\<rparr>
             | Inr searchDigest \<Rightarrow>
                (let userPrompt = buildPrompt title models searchDigest hasModels
                                    (Some stylePreference) (Some contentType);
                     contentPrompt = selectContentPrompt ps contentType;
                     styleHint = selectStyleHint stylePreference;
                     systemPrompt = join [0x0A, 0x0A]
                                      (filter (\<lambda>s. s \<noteq> []) [zhihuPersona, contentPrompt, styleHint]);
                     aiApiUrl = or_default (AI_API_URL env)
                                  (asc ''https://api.openai.com/v1/chat/completions'');
                     aiApiKey = or_default (AI_API_KEY env) (or_default (OPENAI_API_KEY env) [])
                 in
                 if aiApiKey = [] then
                   \<lparr>reply = \<lparr>status = 500, payload = ErrorReply err_key\<rparr>, calls = []\<rparr>
                 else
                   (let call = \<lparr>call_url = aiApiUrl,
                                call_authorization = asc ''Bearer '' @ aiApiKey,
                                call_model = asc ''gpt-4.1'',
                                call_system = systemPrompt,
                                call_user = userPrompt,
                                call_abort_after_ms = 120000\<rparr>
                    in
                    \<lparr>reply =
                       (case complete aiApiUrl (net call) of
                          Inl error \<Rightarrow> catch_reply error
                        | Inr article \<Rightarrow>
                            \<lparr>status = 200,
                             payload = ArticleReply article
                               \<lparr>md_title = title, md_models = models,
                                md_contentType = contentType,
                                md_stylePreference = stylePreference,
                                md_generatedAt = now\<rparr>\<rparr>),
                         calls = [call]\<rparr>)))))"

section \<open>The search endpoint (\<open>src/app/api/search/route.ts\<close>)\<close>

text \<open>
  What \<open>await request.json()\<close> resolves to, as far as lines 18-19 read it. The body is
  any JSON value. \<open>null\<close> has no properties, so reading \<open>body.model\<close> throws. On any
  other value \<open>body.model\<close> is absent (\<open>undefined\<close> or \<open>null\<close>, for which \<open>?.\<close> yields
  \<open>undefined\<close>), or a string, or another value, which has no method \<open>trim\<close>.
\<close>

datatype model_value = ModelAbsent | ModelString jstring | ModelOther

datatype SearchRequestBody = NullBody | JsonBody model_value

text \<open>An entry of \<open>organic_results\<close> as the provider sends it (lines 67-71).\<close>

record OrganicResult =
  org_title :: "jstring option"
  org_snippet :: "jstring option"
  org_url :: "jstring option"

text \<open>\<open>SearchResultItem\<close> of the search route (lines 3-8).\<close>

record SerpstackItem =
  res_title :: jstring
  res_snippet :: jstring
  res_link :: jstring
  res_source :: jstring

text \<open>
  The \<open>error\<close> object of a provider response, as far as line 62 reads it: \<open>info\<close>,
  \<open>type\<close>, and the text \<open>JSON.stringify\<close> gives for it.
\<close>

record serp_error =
  error_info :: "jstring option"
  error_type :: "jstring option"
  error_stringified :: jstring

record serp_data =
  data_error :: "serp_error option"
  organic_results :: "OrganicResult list option"

record serp_response =
  serp_status :: nat
  serp_text :: "thrown + jstring"
  serp_json :: "thrown + serp_data"

definition serp_ok :: "serp_response \<Rightarrow> bool" where
  "serp_ok res \<longleftrightarrow> 200 \<le> serp_status res \<and> serp_status res \<le> 299"

text \<open>
  Lines 47-51 build the URL and call \<open>fetch\<close>; either step may throw
  (\<open>encodeURIComponent\<close> on a lone surrogate, \<open>fetch\<close> on a transport failure).
\<close>

datatype serp_outcome = SerpRejects thrown | SerpResolves serp_response

text \<open>The query of lines 47-49: the access key, the search term and \<open>num\<close>.\<close>

record serp_query =
  query_access_key :: jstring
  query_term :: jstring
  query_num :: nat

text \<open>Line 22: "The model must not be empty".\<close>

definition err_search_model :: jstring where
  "err_search_model = [0x578B, 0x53F7, 0x4E0D, 0x80FD, 0x4E3A, 0x7A7A]"

text \<open>Line 26: "SERPSTACK_API_KEY is not configured".\<close>

definition err_search_key :: jstring where
  "err_search_key =
    [0x0053, 0x0045, 0x0052, 0x0050, 0x0053, 0x0054, 0x0041, 0x0043, 0x004B, 0x005F, 0x0041,
     0x0050, 0x0049, 0x005F, 0x004B, 0x0045, 0x0059, 0x0020, 0x672A, 0x914D, 0x7F6E]"

text \<open>Line 32: "Could not get search results, try again later".\<close>

definition err_search_none :: jstring where
  "err_search_none =
    [0x672A, 0x80FD, 0x83B7, 0x53D6, 0x641C, 0x7D22, 0x7ED3, 0x679C, 0xFF0C, 0x8BF7, 0x7A0D,
     0x540E, 0x518D, 0x8BD5]"

text \<open>Line 38: "The search failed".\<close>

definition err_search_failed :: jstring where
  "err_search_failed = [0x641C, 0x7D22, 0x5931, 0x8D25]"

text \<open>Line 64: "Serpstack API error: ".\<close>

definition serp_err_pre :: jstring where
  "serp_err_pre =
    [0x0053, 0x0065, 0x0072, 0x0070, 0x0073, 0x0074, 0x0061, 0x0063, 0x006B, 0x0020, 0x0041,
     0x0050, 0x0049, 0x0020, 0x9519, 0x8BEF, 0x003A, 0x0020]"

text \<open>\<open>item.title && item.snippet && item.url\<close>: present and not the empty string.\<close>

definition truthy :: "jstring option \<Rightarrow> bool" where
  "truthy v \<longleftrightarrow> (case v of None \<Rightarrow> False | Some s \<Rightarrow> s \<noteq> [])"

text \<open>
  Lines 75-82. The non-null assertions \<open>item.title!\<close> read the value that the filter has
  found present.
\<close>

definition normalize_results :: "OrganicResult list \<Rightarrow> SerpstackItem list" where
  "normalize_results organic =
     map (\<lambda>item. \<lparr>res_title = the (org_title item),
                  res_snippet = the (org_snippet item),
                  res_link = the (org_url item),
                  res_source = asc ''serpstack''\<rparr>)
       (filter (\<lambda>item. truthy (org_title item) \<and> truthy (org_snippet item)
                        \<and> truthy (org_url item)) organic)"

text \<open>The \<open>try\<close> block of \<open>querySerpstack\<close> (lines 46-82): a result, or the value thrown.\<close>

definition querySerpstack_try :: "serp_outcome \<Rightarrow> thrown + SerpstackItem list option" where
  "querySerpstack_try outcome =
     (case outcome of
        SerpRejects e \<Rightarrow> Inl e
      | SerpResolves res \<Rightarrow>
          if \<not> serp_ok res then
            (case serp_text res of
               Inl e \<Rightarrow> Inl e
             | Inr text \<Rightarrow>
                 Inl (new_Error (asc ''Serpstack API HTTP '' @ show_nat (serp_status res)
                                 @ asc '': '' @ take 100 text)))
          else
            (case serp_json res of
               Inl e \<Rightarrow> Inl e
             | Inr data \<Rightarrow>
                 (case data_error data of
                    Some err \<Rightarrow>
                      Inl (new_Error (serp_err_pre @
                             or_default (error_info err)
                               (or_default (error_type err) (error_stringified err))))
                  | None \<Rightarrow>
                      (let organic = (case organic_results data of
                                        None \<Rightarrow> []
                                      | Some rs \<Rightarrow> rs)
                       in if organic = [] then Inr None
                          else Inr (Some (normalize_results organic))))))"

text \<open>\<open>querySerpstack\<close> (lines 45-87): the \<open>catch\<close> clause turns every throw into \<open>null\<close>.\<close>

definition querySerpstack ::
  "jstring \<Rightarrow> (serp_query \<Rightarrow> serp_outcome) \<Rightarrow> jstring \<Rightarrow> SerpstackItem list option" where
  "querySerpstack key net model =
     (case querySerpstack_try
             (net \<lparr>query_access_key = key, query_term = model, query_num = 10\<rparr>) of
        Inl e \<Rightarrow> None
      | Inr results \<Rightarrow> results)"

datatype search_payload = SearchError jstring | SearchResults jstring "SerpstackItem list"

text \<open>The two \<open>TypeError\<close>s of line 19, in the words of V8.\<close>

definition null_body_error :: thrown where
  "null_body_error =
     ErrorObj (asc ''TypeError'')
       (asc ''Cannot read properties of null (reading '' @ [0x27] @ asc ''model'' @ [0x27]
        @ asc '')'')"

definition trim_type_error :: thrown where
  "trim_type_error =
     ErrorObj (asc ''TypeError'') (asc ''body.model?.trim is not a function'')"

text \<open>Line 19, \<open>body.model?.trim()\<close>: the trimmed model, \<open>undefined\<close>, or a throw.\<close>

fun read_model :: "SearchRequestBody \<Rightarrow> thrown + jstring option" where
  "read_model NullBody = Inl null_body_error"
| "read_model (JsonBody ModelAbsent) = Inr None"
| "read_model (JsonBody (ModelString s)) = Inr (Some (trim s))"
| "read_model (JsonBody ModelOther) = Inl trim_type_error"

text \<open>The \<open>catch\<close> clause of lines 36-42.\<close>

definition search_catch :: "thrown \<Rightarrow> search_payload http_reply" where
  "search_catch error =
     (let msg = (case error of ErrorObj _ m \<Rightarrow> m | NonError \<Rightarrow> err_search_failed) in
      \<lparr>status = (if str_includes msg (asc ''invalid_access_key'')
                    \<or> str_includes msg (asc ''API Access Key'') then 401 else 500),
       payload = SearchError msg\<rparr>)"

text \<open>
  \<open>POST\<close> of the search route (lines 16-43), with the configured key (line 14) and the
  answer of the network as parameters.
\<close>

definition search_POST ::
  "jstring option \<Rightarrow> (serp_query \<Rightarrow> serp_outcome) \<Rightarrow> SearchRequestBody request
     \<Rightarrow> search_payload http_reply" where
  "search_POST SERPSTACK_API_KEY net request =
     (case request of
        BodyRejects error \<Rightarrow> search_catch error
      | Body body \<Rightarrow>
          (case read_model body of
             Inl error \<Rightarrow> search_catch error
           | Inr m \<Rightarrow>
              (let model = or_default m [] in
               if model = [] then \<lparr>status = 400, payload = SearchError err_search_model\<rparr>
               else if or_default SERPSTACK_API_KEY [] = [] then
                 \<lparr>status = 500, payload = SearchError err_search_key\<rparr>
               else
                 (case querySerpstack (or_default SERPSTACK_API_KEY []) net model of
                    None \<Rightarrow> \<lparr>status = 502, payload = SearchError err_search_none\<rparr>
                  | Some results \<Rightarrow>
                      if results = [] then
                        \<lparr>status = 502, payload = SearchError err_search_none\<rparr>
                      else \<lparr>status = 200, payload = SearchResults model results\<rparr>))))"

section \<open>The digest as the specification words it\<close>

text \<open>One retained item: a hyphen, a space, the title, a full-width colon, the snippet.\<close>

definition digest_line :: "SearchResultItem \<Rightarrow> jstring" where
  "digest_line i = [0x2D, 0x20] @ item_title i @ item_colon @ item_snippet i"

text \<open>
  The block of one product: the fixed "no summary available" line when the product has
  no snippet list or an empty one, else the product name and one line for each of the
  first four items.
\<close>

definition product_entry :: "search_data \<Rightarrow> jstring \<Rightarrow> jstring" where
  "product_entry searchData model =
     (case map_of searchData model of
        None \<Rightarrow> model @ no_summary
      | Some [] \<Rightarrow> model @ no_summary
      | Some (i # items) \<Rightarrow>
          model @ colon_nl @ join [0x0A] (map digest_line (take 4 (i # items))))"

text \<open>
  A model name for which \<open>searchData[model]\<close> reads an inherited function of one or more
  parameters.
\<close>

definition reads_method :: "search_data \<Rightarrow> jstring \<Rightarrow> bool" where
  "reads_method searchData model =
     (case get_property searchData model of
        InheritedFunction n \<Rightarrow> 0 < n
      | _ \<Rightarrow> False)"

section \<open>Search normalization as the specification words it\<close>

text \<open>
  A raw result that has a title, a snippet and a link gives these three and the tag of
  the provider; one that misses any of them (or has it empty) gives nothing.
\<close>

definition complete_fields :: "OrganicResult \<Rightarrow> (jstring \<times> jstring \<times> jstring \<times> jstring) option" where
  "complete_fields item =
     (case (org_title item, org_snippet item, org_url item) of
        (Some t, Some s, Some u) \<Rightarrow>
          if t = [] \<or> s = [] \<or> u = [] then None else Some (t, s, u, asc ''serpstack'')
      | _ \<Rightarrow> None)"

section \<open>Sample inputs\<close>

text \<open>Guidance texts of which the appliance text failed to load.\<close>

definition prompts_partial :: prompts where
  "prompts_partial =
     \<lparr>appliancePrompt = [], beautyPrompt = asc ''B'', giftPrompt = asc ''G'',
      discussionPrompt = asc ''D''\<rparr>"

text \<open>Five search results for one product.\<close>

definition five_items :: "SearchResultItem list" where
  "five_items =
     map (\<lambda>n. \<lparr>item_title = asc ''t'' @ show_nat n, item_snippet = asc ''s'' @ show_nat n,
                item_link = None, item_source = None\<rparr>) [1, 2, 3, 4, 5]"

text \<open>A raw result with all three fields, and one without a snippet.\<close>

definition organic_full :: OrganicResult where
  "organic_full =
     \<lparr>org_title = Some (asc ''t''), org_snippet = Some (asc ''s''), org_url = Some (asc ''u'')\<rparr>"

definition organic_no_snippet :: OrganicResult where
  "organic_no_snippet =
     \<lparr>org_title = Some (asc ''t''), org_snippet = None, org_url = Some (asc ''u'')\<rparr>"

text \<open>
  A request with a title and only blank model names; one with a blank title; one with a
  model and search data for it; one whose model is named like a method that every
  object inherits; one with a model but an empty \<open>searchData\<close>.
\<close>

definition question_only :: GenerateRequest where
  "question_only =
     \<lparr>body_title = Some (asc '' Q ''), body_models = Some [asc ''  '', []],
      body_searchData = None, body_manualPrompt = None, body_contentType = None,
      body_stylePreference = None\<rparr>"

definition blank_title :: GenerateRequest where
  "blank_title =
     \<lparr>body_title = Some (asc ''  ''), body_models = None,
      body_searchData = None, body_manualPrompt = None, body_contentType = None,
      body_stylePreference = None\<rparr>"

definition model_with_data :: GenerateRequest where
  "model_with_data =
     \<lparr>body_title = Some (asc ''Q''), body_models = Some [asc '' A ''],
      body_searchData = Some [(asc ''A'', five_items)], body_manualPrompt = None,
      body_contentType = None, body_stylePreference = None\<rparr>"

definition inherited_name :: GenerateRequest where
  "inherited_name =
     \<lparr>body_title = Some (asc ''Q''), body_models = Some [asc ''constructor''],
      body_searchData = Some [(asc ''A'', [])], body_manualPrompt = None,
      body_contentType = None, body_stylePreference = None\<rparr>"

definition model_without_data :: GenerateRequest where
  "model_without_data =
     \<lparr>body_title = Some (asc ''Q''), body_models = Some [asc '' A ''],
      body_searchData = Some [], body_manualPrompt = None, body_contentType = None,
      body_stylePreference = None\<rparr>"

text \<open>A time stamp, as \<open>new Date().toISOString()\<close> gives it.\<close>

definition sample_time :: jstring where
  "sample_time = asc ''2025-01-01T00:00:00.000Z''"

text \<open>An environment with a credential and one without.\<close>

definition env_with_key :: environment where
  "env_with_key = \<lparr>AI_API_URL = None, AI_API_KEY = Some (asc ''k''), OPENAI_API_KEY = None\<rparr>"

definition env_without_key :: environment where
  "env_without_key = \<lparr>AI_API_URL = None, AI_API_KEY = None, OPENAI_API_KEY = Some []\<rparr>"

text \<open>
  Answers of the network to a completion call: the call is aborted; the connection
  fails; the endpoint answers 503 with a body of 250 code units; the endpoint answers
  200 with an empty text; the endpoint answers 200 with a text.
\<close>

definition net_aborted :: "completion_call \<Rightarrow> fetch_outcome" where
  "net_aborted call = FetchRejects (ErrorObj (asc ''AbortError'') (asc ''aborted''))"

definition net_refused :: "completion_call \<Rightarrow> fetch_outcome" where
  "net_refused call = FetchRejects (ErrorObj (asc ''TypeError'') (asc ''fetch failed''))"

definition net_unavailable :: "completion_call \<Rightarrow> fetch_outcome" where
  "net_unavailable call =
     FetchResolves \<lparr>resp_status = 503, resp_statusText = asc ''Service Unavailable'',
                    resp_text = Inr (replicate 250 0x78), resp_json = Inl NonError\<rparr>"

definition net_blank :: "completion_call \<Rightarrow> fetch_outcome" where
  "net_blank call =
     FetchResolves \<lparr>resp_status = 200, resp_statusText = asc ''OK'',
                    resp_text = Inr [],
                    resp_json = Inr (Completion (Some [Choice (Some (Message (Some [])))]))\<rparr>"

definition net_article :: "completion_call \<Rightarrow> fetch_outcome" where
  "net_article call =
     FetchResolves \<lparr>resp_status = 200, resp_statusText = asc ''OK'',
                    resp_text = Inr [],
                    resp_json = Inr (Completion (Some [Choice (Some (Message (Some (asc ''text''))))]))\<rparr>"

text \<open>A search provider that cannot be reached, and one that reports an error.\<close>

definition serp_down :: "serp_query \<Rightarrow> serp_outcome" where
  "serp_down q = SerpRejects (ErrorObj (asc ''TypeError'') (asc ''fetch failed''))"

definition serp_invalid_key :: "serp_query \<Rightarrow> serp_outcome" where
  "serp_invalid_key q =
     SerpResolves \<lparr>serp_status = 200, serp_text = Inr [],
                   serp_json = Inr \<lparr>data_error = Some \<lparr>error_info = None,
                                        error_type = Some (asc ''invalid_access_key''),
                                        error_stringified = []\<rparr>,
                                     organic_results = None\<rparr>\<rparr>"

text \<open>
  Search requests: for a model, and with a blank model. The error that the JSON parser
  throws for an empty body.
\<close>

definition search_tv :: SearchRequestBody where
  "search_tv = JsonBody (ModelString (asc '' tv ''))"

definition search_blank :: SearchRequestBody where
  "search_blank = JsonBody (ModelString (asc ''  ''))"

definition empty_body :: thrown where
  "empty_body = ErrorObj (asc ''SyntaxError'') (asc ''Unexpected end of JSON input'')"

section \<open>Lemmas on strings\<close>

lemma asc_eq_iff: "asc a = asc b \<longleftrightarrow> a = b"
  by (simp add: asc_def inj_map_eq_map inj_of_char)

lemma asc_Nil_iff: "asc a = [] \<longleftrightarrow> a = []"
  by (simp add: asc_def)

lemma sublist_join: "m \<in> set xs \<Longrightarrow> sublist m (join sep xs)"
proof (induction sep xs rule: join.induct)
  case (1 sep)
  then show ?case by simp
next
  case (2 sep x)
  then show ?case by simp
next
  case (3 sep x y ys)
  show ?case
  proof (cases "m = x")
    case True
    then show ?thesis by simp
  next
    case False
    with 3 have "sublist m (join sep (y # ys))" by simp
    then obtain p s where "join sep (y # ys) = p @ m @ s" by (auto simp: sublist_def)
    then have "join sep (x # y # ys) = (x @ sep @ p) @ m @ s" by simp
    then show ?thesis unfolding sublist_def by blast
  qed
qed

lemma sublist_in_append: "sublist x y \<Longrightarrow> sublist x (p @ y @ s)"
  by (metis sublist_appendI sublist_order.order_trans)

lemma sublist_Cons_in_set: "sublist (c # k) f \<Longrightarrow> c \<in> set f"
  using set_mono_sublist by fastforce

text \<open>
  A text that starts with a code unit absent from \<open>f\<close> cannot begin inside \<open>f\<close>, so an
  occurrence in \<open>f @ r\<close> lies in \<open>r\<close>.
\<close>

lemma sublist_skip_fixed:
  assumes "sublist (c # k) (f @ r)" and "c \<notin> set f"
  shows "sublist (c # k) r"
proof -
  from assms(1) consider "sublist (c # k) f" | "sublist (c # k) r"
    | k1 k2 where "c # k = k1 @ k2" "suffix k1 f" "prefix k2 r"
    by (auto simp: sublist_append)
  then show ?thesis
  proof cases
    case 1
    with assms(2) show ?thesis by (auto dest: sublist_Cons_in_set)
  next
    case 2
    then show ?thesis .
  next
    case 3
    show ?thesis
    proof (cases k1)
      case Nil
      with 3 show ?thesis by simp
    next
      case (Cons a k1')
      with 3 have "a = c" by simp
      moreover from 3(2) Cons have "a \<in> set f" by (auto simp: suffix_def)
      ultimately show ?thesis using assms(2) by simp
    qed
  qed
qed

text \<open>
  An occurrence of \<open>k\<close> in \<open>u @ f @ r\<close> cannot run from \<open>u\<close> into \<open>f\<close> when the first
  code unit of \<open>f\<close> is not in \<open>k\<close>.
\<close>

lemma sublist_split_at:
  assumes "sublist k (u @ f @ r)" and "f \<noteq> []" and "hd f \<notin> set k"
  shows "sublist k u \<or> sublist k (f @ r)"
proof -
  from assms(1) consider "sublist k u" | "sublist k (f @ r)"
    | k1 k2 where "k = k1 @ k2" "suffix k1 u" "prefix k2 (f @ r)"
    by (auto simp: sublist_append)
  then show ?thesis
  proof cases
    case 3
    show ?thesis
    proof (cases k2)
      case Nil
      with 3 show ?thesis by simp
    next
      case (Cons a k2')
      with 3(3) assms(2) have "a = hd f" by (cases f) (auto simp: prefix_def)
      with 3(1) Cons assms(3) show ?thesis by simp
    qed
  qed auto
qed

text \<open>
  The same two facts for a text \<open>pre @ c # post\<close> of which only the code unit \<open>c\<close> is known
  to be absent from \<open>f\<close>: an occurrence cannot begin inside \<open>f\<close> when \<open>f\<close> does not end with
  a code unit of \<open>pre\<close>, and cannot run from \<open>u\<close> into \<open>f\<close> when \<open>f\<close> does not begin with a
  code unit of \<open>post\<close> and has a code unit \<open>d\<close> that the text lacks.
\<close>

lemma sublist_skip_fixed_at:
  assumes "sublist (pre @ c # post) (f @ r)" and "c \<notin> set f"
    and "f = [] \<or> last f \<notin> set pre"
  shows "sublist (pre @ c # post) r"
proof -
  from assms(1) consider "sublist (pre @ c # post) f" | "sublist (pre @ c # post) r"
    | k1 k2 where "pre @ c # post = k1 @ k2" "suffix k1 f" "prefix k2 r"
    by (auto simp: sublist_append)
  then show ?thesis
  proof cases
    case 1
    then have "set (pre @ c # post) \<subseteq> set f" by (rule set_mono_sublist)
    with assms(2) show ?thesis by simp
  next
    case 2
    then show ?thesis .
  next
    case 3
    show ?thesis
    proof (cases "k1 = []")
      case True
      with 3 show ?thesis by simp
    next
      case False
      from 3(2) have sub: "set k1 \<subseteq> set f" by (auto simp: suffix_def)
      with assms(2) have ck: "c \<notin> set k1" by blast
      from 3(2) False have lf: "f \<noteq> []" "last k1 = last f" by (auto simp: suffix_def)
      from 3(1) obtain us where
        "(pre = k1 @ us \<and> us @ c # post = k2) \<or> (pre @ us = k1 \<and> c # post = us @ k2)"
        by (auto simp: append_eq_append_conv2)
      then have "\<exists>us. pre = k1 @ us"
      proof
        assume "pre = k1 @ us \<and> us @ c # post = k2"
        then show ?thesis by blast
      next
        assume a: "pre @ us = k1 \<and> c # post = us @ k2"
        show ?thesis
        proof (cases us)
          case Nil
          with a show ?thesis by auto
        next
          case (Cons a' us')
          with a have "c \<in> set k1" by auto
          with ck show ?thesis by simp
        qed
      qed
      with False have "last k1 \<in> set pre" by auto
      with lf assms(3) show ?thesis by simp
    qed
  qed
qed

lemma sublist_split_at_user:
  assumes "sublist (pre @ c # post) (u @ f @ r)" and "c \<notin> set f" and "f \<noteq> []"
    and "hd f \<notin> set post" and "d \<in> set f" and "d \<notin> set (pre @ c # post)"
  shows "sublist (pre @ c # post) u \<or> sublist (pre @ c # post) (f @ r)"
proof -
  from assms(1) consider "sublist (pre @ c # post) u" | "sublist (pre @ c # post) (f @ r)"
    | k1 k2 where "pre @ c # post = k1 @ k2" "suffix k1 u" "prefix k2 (f @ r)"
    by (auto simp: sublist_append)
  then show ?thesis
  proof cases
    case 3
    show ?thesis
    proof (cases "k2 = []")
      case True
      with 3 show ?thesis by simp
    next
      case False
      from 3(3) consider "prefix k2 f" | k3 where "k2 = f @ k3"
        by (auto simp: prefix_append)
      then show ?thesis
      proof cases
        case 1
        then have "set k2 \<subseteq> set f" by (auto simp: prefix_def)
        with assms(2) have ck: "c \<notin> set k2" by blast
        from 1 False assms(3) have hk: "hd k2 = hd f" by (auto simp: prefix_def)
        from 3(1) obtain us where
          "(pre = k1 @ us \<and> us @ c # post = k2) \<or> (pre @ us = k1 \<and> c # post = us @ k2)"
          by (auto simp: append_eq_append_conv2)
        then have "\<exists>vs. post = vs @ k2"
        proof
          assume "pre = k1 @ us \<and> us @ c # post = k2"
          then have "c \<in> set k2" by auto
          with ck show ?thesis by simp
        next
          assume a: "pre @ us = k1 \<and> c # post = us @ k2"
          show ?thesis
          proof (cases us)
            case Nil
            with a have "c \<in> set k2" by (metis list.set_intros(1) append_Nil)
            with ck show ?thesis by simp
          next
            case (Cons a' us')
            with a show ?thesis by auto
          qed
        qed
        with False have "hd k2 \<in> set post" by auto
        with hk assms(4) show ?thesis by simp
      next
        case 2
        with assms(5) have "d \<in> set k2" by simp
        with 3(1) have "d \<in> set (pre @ c # post)" by (metis Un_iff set_append)
        with assms(6) show ?thesis by simp
      qed
    qed
  qed auto
qed

lemma trim_fixed:
  assumes "s \<noteq> []" and "\<not> is_white_space (hd s)" and "\<not> is_white_space (last s)"
  shows "trim s = s"
proof -
  from assms(1,2) have 1: "dropWhile is_white_space s = s" by (cases s) auto
  from assms(1,3) have 2: "dropWhile is_white_space (rev s) = rev s"
    by (cases "rev s") (auto simp: hd_rev)
  show ?thesis by (simp add: trim_def 1 2)
qed

lemma dropWhile_all_iff:
  "(\<forall>x \<in> set (dropWhile P s). P x) \<longleftrightarrow> (\<forall>x \<in> set s. P x)"
proof
  assume all: "\<forall>x \<in> set (dropWhile P s). P x"
  have "dropWhile P s = []"
  proof (rule ccontr)
    assume ne: "dropWhile P s \<noteq> []"
    then have "\<not> P (hd (dropWhile P s))" by (rule hd_dropWhile)
    moreover from ne have "hd (dropWhile P s) \<in> set (dropWhile P s)" by simp
    ultimately show False using all by blast
  qed
  then show "\<forall>x \<in> set s. P x" by (simp add: dropWhile_eq_Nil_conv)
next
  assume "\<forall>x \<in> set s. P x"
  then show "\<forall>x \<in> set (dropWhile P s). P x" by (auto dest: set_dropWhileD)
qed

lemma trim_Nil_iff: "trim s = [] \<longleftrightarrow> (\<forall>c \<in> set s. is_white_space c)"
  by (simp add: trim_def dropWhile_eq_Nil_conv dropWhile_all_iff)

lemma trim_idem: "trim (trim s) = trim s"
proof (cases "trim s = []")
  case True
  moreover have "trim [] = []" by (simp add: trim_def)
  ultimately show ?thesis by simp
next
  case False
  define d where "d = dropWhile is_white_space s"
  define e where "e = dropWhile is_white_space (rev d)"
  have t: "trim s = rev e" by (simp add: trim_def d_def e_def)
  with False have e: "e \<noteq> []" by simp
  then have he: "\<not> is_white_space (hd e)" unfolding e_def by (rule hd_dropWhile)
  have "suffix e (rev d)" unfolding e_def by (rule suffix_dropWhile)
  then obtain p where p: "rev d = p @ e" by (auto simp: suffix_def)
  then have d: "d = rev e @ rev p" by (metis rev_append rev_rev_ident)
  from e d have dne: "d \<noteq> []" by simp
  then have "\<not> is_white_space (hd d)" unfolding d_def by (rule hd_dropWhile)
  with d e have "\<not> is_white_space (hd (rev e))" by simp
  with e have 1: "dropWhile is_white_space (rev e) = rev e"
    by (cases "rev e") auto
  from e he have 2: "dropWhile is_white_space e = e" by (cases e) auto
  show ?thesis unfolding t by (simp add: trim_def 1 2)
qed

section \<open>The content and style selectors: properties\<close>

text \<open>
  C9. \<open>selectContentPrompt\<close> is a total function: for "appliance", "beauty" and "gift"
  it returns that guidance text, or the discussion text when that text is empty (the
  file failed to load); for every other content type, and for a missing one (which the
  handler replaces by "discussion"), it returns the discussion text; so its result is
  not empty whenever the discussion text is not empty.
\<close>

theorem selectContentPrompt_total:
  "selectContentPrompt ps (asc ''appliance'') =
     (if appliancePrompt ps = [] then discussionPrompt ps else appliancePrompt ps)
   \<and> selectContentPrompt ps (asc ''beauty'') =
     (if beautyPrompt ps = [] then discussionPrompt ps else beautyPrompt ps)
   \<and> selectContentPrompt ps (asc ''gift'') =
     (if giftPrompt ps = [] then discussionPrompt ps else giftPrompt ps)
   \<and> (contentType \<noteq> asc ''appliance'' \<and> contentType \<noteq> asc ''beauty''
        \<and> contentType \<noteq> asc ''gift''
        \<longrightarrow> selectContentPrompt ps contentType = discussionPrompt ps)
   \<and> selectContentPrompt ps (or_default None (asc ''discussion'')) = discussionPrompt ps
   \<and> (discussionPrompt ps \<noteq> [] \<longrightarrow> selectContentPrompt ps contentType \<noteq> [])"
  by (simp add: selectContentPrompt_def js_or_def or_default_def asc_eq_iff)

theorem selectContentPrompt_total_witness:
  "asc ''other'' \<noteq> asc ''appliance'' \<and> asc ''other'' \<noteq> asc ''beauty''
   \<and> asc ''other'' \<noteq> asc ''gift'' \<and> discussionPrompt prompts_partial \<noteq> []
   \<and> selectContentPrompt prompts_partial (asc ''other'') = asc ''D''
   \<and> selectContentPrompt prompts_partial (asc ''appliance'') = asc ''D''
   \<and> selectContentPrompt prompts_partial (asc ''beauty'') = asc ''B''"
  using selectContentPrompt_total [of prompts_partial "asc ''other''"]
  by (simp add: prompts_partial_def asc_eq_iff asc_Nil_iff)

text \<open>
  C6. The style hint is a function of the style preference alone. Inside
  \<open>buildPrompt\<close>, "rational" gives the decision-oriented sentence, "experience" the
  experience-oriented one, and every other value (also a missing one) the empty
  string; the hint stands at the end of the template without products and between the
  language rules and the ending rules of the template with products.
  \<open>selectStyleHint\<close>, used for the system prompt, does the same with its own two
  sentences. All four sentences are non-empty.
\<close>

theorem style_hint_function:
  "buildPrompt_styleHint (Some (asc ''rational'')) = hint_rational
   \<and> buildPrompt_styleHint (Some (asc ''experience'')) = hint_experience
   \<and> (writingStyle \<noteq> Some (asc ''rational'') \<and> writingStyle \<noteq> Some (asc ''experience'')
        \<longrightarrow> buildPrompt_styleHint writingStyle = [])
   \<and> buildPrompt title models searchDigest False writingStyle contentType =
       tmpl_open @ title @ plain_rules @ buildPrompt_styleHint writingStyle
   \<and> buildPrompt title models searchDigest True writingStyle contentType =
       tmpl_open @ title @ products_rules @ join models_sep models @ products_usage
         @ suits_rule @ products_tail
         @ (if contentType = Some (asc ''beauty'') then fragrance_block else [])
         @ language_rules @ buildPrompt_styleHint writingStyle @ ending_rules
         @ searchDigest @ products_close
   \<and> selectStyleHint (asc ''rational'') = sys_hint_rational
   \<and> selectStyleHint (asc ''experience'') = sys_hint_experience
   \<and> (stylePreference \<noteq> asc ''rational'' \<and> stylePreference \<noteq> asc ''experience''
        \<longrightarrow> selectStyleHint stylePreference = [])
   \<and> hint_rational \<noteq> [] \<and> hint_experience \<noteq> []
   \<and> sys_hint_rational \<noteq> [] \<and> sys_hint_experience \<noteq> []"
  by (simp add: buildPrompt_styleHint_def selectStyleHint_def buildPrompt_def asc_eq_iff
      hint_rational_def hint_experience_def sys_hint_rational_def sys_hint_experience_def)

theorem style_hint_function_witness:
  "Some (asc ''random'') \<noteq> Some (asc ''rational'')
   \<and> Some (asc ''random'') \<noteq> Some (asc ''experience'')
   \<and> asc ''random'' \<noteq> asc ''rational'' \<and> asc ''random'' \<noteq> asc ''experience''
   \<and> buildPrompt_styleHint (Some (asc ''random'')) = []
   \<and> selectStyleHint (asc ''random'') = []"
  using style_hint_function [of "Some (asc ''random'')" "[]" "[]" "[]" None "asc ''random''"]
  by (simp add: asc_eq_iff)

section \<open>The prompt template builder: properties\<close>

text \<open>
  C4. With \<open>hasModels\<close> true, the output of \<open>buildPrompt\<close> contains every model name
  and contains the rule that every product mentioned must state who it suits and who it
  does not suit. This holds for every title and every list of models, so in particular
  for a non-empty title and one to three names.
\<close>

theorem buildPrompt_mentions_models:
  "(\<forall>m \<in> set models.
      sublist m (buildPrompt title models searchDigest True writingStyle contentType))
   \<and> sublist suits_rule (buildPrompt title models searchDigest True writingStyle contentType)"
proof
  show "\<forall>m \<in> set models.
      sublist m (buildPrompt title models searchDigest True writingStyle contentType)"
  proof
    fix m assume "m \<in> set models"
    then have "sublist m (join models_sep models)" by (rule sublist_join)
    then have "sublist m ((tmpl_open @ title @ products_rules) @ join models_sep models @
       (products_usage @ suits_rule @ products_tail
           @ (if contentType = Some (asc ''beauty'') then fragrance_block else [])
           @ language_rules @ buildPrompt_styleHint writingStyle @ ending_rules
           @ searchDigest @ products_close))"
      by (rule sublist_in_append)
    then show "sublist m (buildPrompt title models searchDigest True writingStyle contentType)"
      by (simp add: buildPrompt_def)
  qed
next
  have "sublist suits_rule
     ((tmpl_open @ title @ products_rules @ join models_sep models @ products_usage)
       @ suits_rule @
       (products_tail
           @ (if contentType = Some (asc ''beauty'') then fragrance_block else [])
           @ language_rules @ buildPrompt_styleHint writingStyle @ ending_rules
           @ searchDigest @ products_close))"
    by (rule sublist_appendI)
  then show "sublist suits_rule
      (buildPrompt title models searchDigest True writingStyle contentType)"
    by (simp add: buildPrompt_def)
qed

theorem buildPrompt_mentions_models_witness:
  "asc ''B'' \<in> set [asc ''A'', asc ''B'', asc ''C'']
   \<and> sublist (asc ''B'')
        (buildPrompt (asc ''Q'') [asc ''A'', asc ''B'', asc ''C''] [] True None None)"
  using buildPrompt_mentions_models [of "[asc ''A'', asc ''B'', asc ''C'']" "asc ''Q''" "[]" None None]
  by simp

subsection \<open>The fragrance block\<close>

lemma notes_phrase_Cons: "notes_phrase = 0x524D # tl notes_phrase"
  by (simp add: notes_phrase_def)

text \<open>The first code unit of the phrase occurs in no other text of the two templates.\<close>

lemma notes_free:
  "0x524D \<notin> set tmpl_open" "0x524D \<notin> set products_rules" "0x524D \<notin> set products_usage"
  "0x524D \<notin> set suits_rule" "0x524D \<notin> set products_tail" "0x524D \<notin> set language_rules"
  "0x524D \<notin> set ending_rules" "0x524D \<notin> set products_close" "0x524D \<notin> set plain_rules"
  "0x524D \<notin> set hint_rational" "0x524D \<notin> set hint_experience"
  by (simp_all add: tmpl_open_def products_rules_def products_usage_def suits_rule_def
      products_tail_def language_rules_def ending_rules_def products_close_def plain_rules_def
      hint_rational_def hint_experience_def)

lemma notes_free_hint: "0x524D \<notin> set (buildPrompt_styleHint ws)"
  by (simp add: buildPrompt_styleHint_def notes_free)

text \<open>The code unit that follows each interpolated value is not in the phrase.\<close>

lemma boundary_chars:
  "products_rules \<noteq> [] \<and> hd products_rules \<notin> set notes_phrase"
  "products_usage \<noteq> [] \<and> hd products_usage \<notin> set notes_phrase"
  "products_close \<noteq> [] \<and> hd products_close \<notin> set notes_phrase"
  "plain_rules \<noteq> [] \<and> hd plain_rules \<notin> set notes_phrase"
  by (simp_all add: products_rules_def products_usage_def products_close_def plain_rules_def
      notes_phrase_def)

lemma notes_phrase_in_text: "sublist notes_phrase fragrance_text"
  by (simp add: notes_phrase_def fragrance_text_def sublist_Cons_right)

lemma plain_absent:
  assumes "sublist notes_phrase (tmpl_open @ title @ plain_rules @ buildPrompt_styleHint ws)"
  shows "sublist notes_phrase title"
proof -
  let ?k = "tl notes_phrase"
  from assms
  have "sublist (0x524D # ?k) (tmpl_open @ title @ plain_rules @ buildPrompt_styleHint ws)"
    using notes_phrase_Cons by simp
  then have "sublist (0x524D # ?k) (title @ plain_rules @ buildPrompt_styleHint ws)"
    by (rule sublist_skip_fixed) (rule notes_free)
  then have "sublist notes_phrase (title @ plain_rules @ buildPrompt_styleHint ws)"
    using notes_phrase_Cons by simp
  then have "sublist notes_phrase title
             \<or> sublist notes_phrase (plain_rules @ buildPrompt_styleHint ws)"
    using boundary_chars(4) by (intro sublist_split_at) auto
  moreover have "\<not> sublist notes_phrase (plain_rules @ buildPrompt_styleHint ws)"
  proof
    assume "sublist notes_phrase (plain_rules @ buildPrompt_styleHint ws)"
    then have "sublist (0x524D # ?k) (plain_rules @ buildPrompt_styleHint ws)"
      using notes_phrase_Cons by simp
    then have "0x524D \<in> set (plain_rules @ buildPrompt_styleHint ws)"
      by (rule sublist_Cons_in_set)
    then show False using notes_free(9) notes_free_hint by simp
  qed
  ultimately show ?thesis by blast
qed

lemma products_absent:
  assumes "sublist notes_phrase
     (tmpl_open @ title @ products_rules @ modelsText @ products_usage @ suits_rule
           @ products_tail @ language_rules @ buildPrompt_styleHint ws @ ending_rules
           @ searchDigest @ products_close)"
  shows "sublist notes_phrase title \<or> sublist notes_phrase modelsText
         \<or> sublist notes_phrase searchDigest"
proof -
  let ?k = "tl notes_phrase"
  let ?F2 = "products_usage @ suits_rule @ products_tail @ language_rules
               @ buildPrompt_styleHint ws @ ending_rules"
  let ?R3 = "searchDigest @ products_close @ []"
  let ?R2 = "modelsText @ ?F2 @ ?R3"
  let ?R1 = "title @ products_rules @ ?R2"
  have K: "notes_phrase = 0x524D # ?k" by (rule notes_phrase_Cons)
  have F2: "0x524D \<notin> set ?F2" by (simp add: notes_free notes_free_hint)
  have hF2: "?F2 \<noteq> [] \<and> hd ?F2 \<notin> set notes_phrase"
    using boundary_chars(2) by simp
  from assms have "sublist (0x524D # ?k) (tmpl_open @ ?R1)" using K by simp
  then have "sublist (0x524D # ?k) ?R1"
    by (rule sublist_skip_fixed) (rule notes_free)
  then have "sublist notes_phrase ?R1" using K by simp
  then have "sublist notes_phrase title \<or> sublist notes_phrase (products_rules @ ?R2)"
    using boundary_chars(1) by (intro sublist_split_at) auto
  moreover have "sublist notes_phrase modelsText \<or> sublist notes_phrase searchDigest"
    if "sublist notes_phrase (products_rules @ ?R2)"
  proof -
    from that have "sublist (0x524D # ?k) (products_rules @ ?R2)" using K by simp
    then have "sublist (0x524D # ?k) ?R2"
      by (rule sublist_skip_fixed) (rule notes_free)
    then have "sublist notes_phrase ?R2" using K by simp
    then have "sublist notes_phrase modelsText \<or> sublist notes_phrase (?F2 @ ?R3)"
      using hF2 by (intro sublist_split_at) auto
    moreover have "sublist notes_phrase searchDigest" if "sublist notes_phrase (?F2 @ ?R3)"
    proof -
      from that have "sublist (0x524D # ?k) (?F2 @ ?R3)" using K by simp
      then have "sublist (0x524D # ?k) ?R3"
        by (rule sublist_skip_fixed) (rule F2)
      then have "sublist notes_phrase ?R3" using K by simp
      then have "sublist notes_phrase searchDigest
                 \<or> sublist notes_phrase (products_close @ [])"
        using boundary_chars(3) by (intro sublist_split_at) auto
      moreover have "\<not> sublist notes_phrase (products_close @ [])"
      proof
        assume "sublist notes_phrase (products_close @ [])"
        then have "sublist (0x524D # ?k) products_close" using K by simp
        then have "0x524D \<in> set products_close" by (rule sublist_Cons_in_set)
        then show False using notes_free(8) by simp
      qed
      ultimately show ?thesis by blast
    qed
    ultimately show ?thesis by blast
  qed
  ultimately show ?thesis by blast
qed

text \<open>
  The fragrance text around the first and around the last occurrence of the code unit
  U+9999 (the first character of the word for perfume), which no other text of the two
  templates contains.
\<close>

lemma fragrance_text_first:
  "fragrance_text = [0x5173, 0x4E8E] @ 0x9999 # drop 3 fragrance_text"
  by (simp add: fragrance_text_def)

lemma fragrance_text_last:
  "fragrance_text = take 313 fragrance_text @ 0x9999 # drop 314 fragrance_text"
  by (simp add: fragrance_text_def)

lemma fragrance_text_tail:
  "0x300D \<notin> set (drop 314 fragrance_text)" "0x0A \<notin> set (drop 314 fragrance_text)"
  by (simp_all add: fragrance_text_def)

lemma fragrance_text_lacks:
  "0x300D \<notin> set fragrance_text" "0x300C \<notin> set fragrance_text"
  "0x8BF7 \<notin> set fragrance_text"
  by (simp_all add: fragrance_text_def)

lemma scent_free:
  "0x9999 \<notin> set tmpl_open" "0x9999 \<notin> set products_rules" "0x9999 \<notin> set products_usage"
  "0x9999 \<notin> set suits_rule" "0x9999 \<notin> set products_tail" "0x9999 \<notin> set language_rules"
  "0x9999 \<notin> set ending_rules" "0x9999 \<notin> set products_close" "0x9999 \<notin> set plain_rules"
  "0x9999 \<notin> set (buildPrompt_styleHint ws)"
  by (simp_all add: tmpl_open_def products_rules_def products_usage_def suits_rule_def
      products_tail_def language_rules_def ending_rules_def products_close_def plain_rules_def
      buildPrompt_styleHint_def hint_rational_def hint_experience_def)

lemma fixed_ends:
  "tmpl_open \<noteq> [] \<and> last tmpl_open = 0x300C"
  "products_rules \<noteq> [] \<and> last products_rules = 0xFF1A \<and> hd products_rules = 0x300D"
  "products_usage \<noteq> [] \<and> hd products_usage = 0x0A"
  "ending_rules \<noteq> [] \<and> last ending_rules = 0x0A"
  "products_close \<noteq> [] \<and> hd products_close = 0x0A"
  "plain_rules \<noteq> [] \<and> hd plain_rules = 0x300D"
  "0x300C \<in> set suits_rule" "0x8BF7 \<in> set products_close"
  "0x300D \<in> set products_rules" "0x300D \<in> set plain_rules"
  by (simp_all add: tmpl_open_def products_rules_def products_usage_def ending_rules_def
      products_close_def plain_rules_def suits_rule_def)

lemma text_skip:
  assumes "sublist fragrance_text (f @ r)" and "0x9999 \<notin> set f"
    and "f = [] \<or> last f \<in> {0x300C, 0xFF1A, 0x0A}"
  shows "sublist fragrance_text r"
proof -
  define post where "post = drop 3 fragrance_text"
  have x: "fragrance_text = [0x5173, 0x4E8E] @ 0x9999 # post"
    unfolding post_def by (rule fragrance_text_first)
  from assms(1) have 1: "sublist ([0x5173, 0x4E8E] @ 0x9999 # post) (f @ r)"
    unfolding x .
  from assms(3) have 2: "f = [] \<or> last f \<notin> set [0x5173, 0x4E8E :: nat]" by auto
  from 1 assms(2) 2 have "sublist ([0x5173, 0x4E8E] @ 0x9999 # post) r"
    by (rule sublist_skip_fixed_at)
  then show ?thesis unfolding x .
qed

lemma text_split:
  assumes "sublist fragrance_text (u @ f @ r)" and "0x9999 \<notin> set f" and "f \<noteq> []"
    and "hd f \<in> {0x300D, 0x0A}" and "d \<in> set f" and "d \<in> {0x300D, 0x300C, 0x8BF7}"
  shows "sublist fragrance_text u \<or> sublist fragrance_text (f @ r)"
proof -
  define pre where "pre = take 313 fragrance_text"
  define post where "post = drop 314 fragrance_text"
  have x: "fragrance_text = pre @ 0x9999 # post"
    unfolding pre_def post_def by (rule fragrance_text_last)
  from assms(1) have 1: "sublist (pre @ 0x9999 # post) (u @ f @ r)"
    unfolding x .
  from assms(4) have 2: "hd f \<notin> set post"
    unfolding post_def using fragrance_text_tail by auto
  from assms(6) have "d \<notin> set fragrance_text" using fragrance_text_lacks by auto
  then have 3: "d \<notin> set (pre @ 0x9999 # post)" unfolding x .
  from 1 assms(2,3) 2 assms(5) 3
  have "sublist (pre @ 0x9999 # post) u \<or> sublist (pre @ 0x9999 # post) (f @ r)"
    by (rule sublist_split_at_user)
  then show ?thesis unfolding x .
qed

lemma text_not_in_fixed:
  assumes "sublist fragrance_text f" and "0x9999 \<notin> set f"
  shows False
proof -
  from assms(1) have "set fragrance_text \<subseteq> set f" by (rule set_mono_sublist)
  moreover have "0x9999 \<in> set fragrance_text"
    by (simp add: fragrance_text_def)
  ultimately show False using assms(2) by blast
qed

lemma plain_absent_text:
  assumes "sublist fragrance_text (tmpl_open @ title @ plain_rules @ buildPrompt_styleHint ws)"
  shows "sublist fragrance_text title"
proof -
  let ?F = "plain_rules @ buildPrompt_styleHint ws"
  have F: "0x9999 \<notin> set ?F" by (simp add: scent_free)
  have "sublist fragrance_text (title @ ?F @ [])"
    by (rule text_skip [of tmpl_open]) (use assms scent_free(1) fixed_ends(1) in simp_all)
  then have "sublist fragrance_text title \<or> sublist fragrance_text (?F @ [])"
    by (rule text_split [where d = "0x300D"])
       (use F fixed_ends(6) fixed_ends(10) in simp_all)
  moreover have "\<not> sublist fragrance_text (?F @ [])"
  proof
    assume "sublist fragrance_text (?F @ [])"
    then have "sublist fragrance_text ?F" by simp
    from this F show False by (rule text_not_in_fixed)
  qed
  ultimately show ?thesis by blast
qed

lemma products_absent_text:
  assumes "sublist fragrance_text
     (tmpl_open @ title @ products_rules @ modelsText @ products_usage @ suits_rule
           @ products_tail @ language_rules @ buildPrompt_styleHint ws @ ending_rules
           @ searchDigest @ products_close)"
  shows "sublist fragrance_text title \<or> sublist fragrance_text modelsText
         \<or> sublist fragrance_text searchDigest"
proof -
  let ?F2 = "products_usage @ suits_rule @ products_tail @ language_rules
               @ buildPrompt_styleHint ws @ ending_rules"
  let ?R3 = "searchDigest @ products_close @ []"
  let ?R2 = "modelsText @ ?F2 @ ?R3"
  let ?R1 = "title @ products_rules @ ?R2"
  have F2: "0x9999 \<notin> set ?F2" by (simp add: scent_free)
  have F2ne: "?F2 \<noteq> []" using fixed_ends(3) by simp
  have F2hd: "hd ?F2 \<in> {0x300D, 0x0A}" using fixed_ends(3) by simp
  have F2last: "?F2 = [] \<or> last ?F2 \<in> {0x300C, 0xFF1A, 0x0A}" using fixed_ends(4) by simp
  have F2d: "0x300C \<in> set ?F2" using fixed_ends(7) by simp
  have "sublist fragrance_text ?R1"
    by (rule text_skip [of tmpl_open]) (use assms scent_free(1) fixed_ends(1) in simp_all)
  then have "sublist fragrance_text title \<or> sublist fragrance_text (products_rules @ ?R2)"
    by (rule text_split [where d = "0x300D"])
       (use scent_free(2) fixed_ends(2) fixed_ends(9) in simp_all)
  moreover have "sublist fragrance_text modelsText \<or> sublist fragrance_text searchDigest"
    if a: "sublist fragrance_text (products_rules @ ?R2)"
  proof -
    have "sublist fragrance_text ?R2"
      by (rule text_skip [of products_rules]) (use a scent_free(2) fixed_ends(2) in simp_all)
    from this F2 F2ne F2hd F2d
    have "sublist fragrance_text modelsText \<or> sublist fragrance_text (?F2 @ ?R3)"
      by (rule text_split) simp
    moreover have "sublist fragrance_text searchDigest"
      if b: "sublist fragrance_text (?F2 @ ?R3)"
    proof -
      from b F2 F2last have "sublist fragrance_text ?R3" by (rule text_skip)
      then have "sublist fragrance_text searchDigest
                 \<or> sublist fragrance_text (products_close @ [])"
        by (rule text_split [where d = "0x8BF7"])
           (use scent_free(8) fixed_ends(5) fixed_ends(8) in simp_all)
      moreover have "\<not> sublist fragrance_text (products_close @ [])"
      proof
        assume "sublist fragrance_text (products_close @ [])"
        then have "sublist fragrance_text products_close" by simp
        from this scent_free(8) show False by (rule text_not_in_fixed)
      qed
      ultimately show ?thesis by blast
    qed
    ultimately show ?thesis by blast
  qed
  ultimately show ?thesis by blast
qed

text \<open>
  C5, as the code has it. When \<open>contentType\<close> is "beauty" and \<open>hasModels\<close> is true, the
  output contains the whole fragrance block. Whenever the fragrance text is not already
  part of the title or, with \<open>hasModels\<close> true, of the joined model names or of the search
  digest, the output contains the fragrance text if and only if \<open>contentType\<close> is
  "beauty" and \<open>hasModels\<close> is true. Outside that case the output does not even contain
  the phrase "top note, heart note, base note" of the text, unless one of these inputs
  contains that phrase.
\<close>

theorem fragrance_block_iff:
  "(contentType = Some (asc ''beauty'') \<and> hasModels \<longrightarrow>
      sublist fragrance_block
        (buildPrompt title models searchDigest hasModels writingStyle contentType))
   \<and> (\<not> sublist fragrance_text title
       \<and> (hasModels \<longrightarrow> \<not> sublist fragrance_text (join models_sep models)
                        \<and> \<not> sublist fragrance_text searchDigest) \<longrightarrow>
      (sublist fragrance_text
         (buildPrompt title models searchDigest hasModels writingStyle contentType)
       \<longleftrightarrow> contentType = Some (asc ''beauty'') \<and> hasModels))
   \<and> (\<not> (contentType = Some (asc ''beauty'') \<and> hasModels)
       \<and> \<not> sublist notes_phrase title
       \<and> (hasModels \<longrightarrow> \<not> sublist notes_phrase (join models_sep models)
                        \<and> \<not> sublist notes_phrase searchDigest) \<longrightarrow>
      \<not> sublist notes_phrase
        (buildPrompt title models searchDigest hasModels writingStyle contentType))
   \<and> sublist notes_phrase fragrance_text"
proof -
  let ?out = "buildPrompt title models searchDigest hasModels writingStyle contentType"
  have present: "sublist fragrance_block ?out"
    if "contentType = Some (asc ''beauty'') \<and> hasModels"
  proof -
    have "sublist fragrance_block
     ((tmpl_open @ title @ products_rules @ join models_sep models @ products_usage
         @ suits_rule @ products_tail) @ fragrance_block @
      (language_rules @ buildPrompt_styleHint writingStyle
         @ ending_rules @ searchDigest @ products_close))"
      by (rule sublist_appendI)
    with that show ?thesis by (simp add: buildPrompt_def)
  qed
  have text_in_block: "sublist fragrance_text fragrance_block"
    by (simp add: fragrance_block_def sublist_Cons_right)
  have absent: "\<not> sublist fragrance_text ?out"
    if a: "\<not> sublist fragrance_text title"
      "hasModels \<longrightarrow> \<not> sublist fragrance_text (join models_sep models)
                        \<and> \<not> sublist fragrance_text searchDigest"
      and nb: "\<not> (contentType = Some (asc ''beauty'') \<and> hasModels)"
  proof (cases hasModels)
    case False
    with a show ?thesis using plain_absent_text by (auto simp: buildPrompt_def)
  next
    case True
    with nb have "contentType \<noteq> Some (asc ''beauty'')" by simp
    with True a show ?thesis using products_absent_text by (auto simp: buildPrompt_def)
  qed
  have phrase_absent: "\<not> sublist notes_phrase ?out"
    if a: "\<not> (contentType = Some (asc ''beauty'') \<and> hasModels)
       \<and> \<not> sublist notes_phrase title
       \<and> (hasModels \<longrightarrow> \<not> sublist notes_phrase (join models_sep models)
                        \<and> \<not> sublist notes_phrase searchDigest)"
  proof (cases hasModels)
    case False
    with a show ?thesis using plain_absent by (auto simp: buildPrompt_def)
  next
    case True
    with a have nb: "contentType \<noteq> Some (asc ''beauty'')" by simp
    from True a show ?thesis using products_absent by (auto simp: buildPrompt_def nb)
  qed
  from present text_in_block have present_text: "sublist fragrance_text ?out"
    if "contentType = Some (asc ''beauty'') \<and> hasModels"
    using that sublist_order.order_trans by blast
  show ?thesis
    using present present_text absent phrase_absent notes_phrase_in_text by blast
qed

theorem fragrance_block_iff_witness:
  "\<not> (Some (asc ''gift'') = Some (asc ''beauty'') \<and> True)
   \<and> \<not> sublist fragrance_text notes_phrase
   \<and> \<not> sublist fragrance_text (join models_sep [asc ''A''])
   \<and> \<not> sublist fragrance_text (asc ''d'')
   \<and> \<not> sublist fragrance_text
        (buildPrompt notes_phrase [asc ''A''] (asc ''d'') True None (Some (asc ''gift'')))
   \<and> sublist fragrance_text
        (buildPrompt notes_phrase [asc ''A''] (asc ''d'') True None (Some (asc ''beauty'')))
   \<and> sublist fragrance_block
        (buildPrompt notes_phrase [asc ''A''] (asc ''d'') True None (Some (asc ''beauty'')))
   \<and> \<not> sublist notes_phrase (asc ''Q'')
   \<and> \<not> sublist notes_phrase (asc ''A'') \<and> \<not> sublist notes_phrase (asc ''d'')
   \<and> \<not> sublist notes_phrase
        (buildPrompt (asc ''Q'') [asc ''A''] (asc ''d'') True None (Some (asc ''gift'')))"
proof -
  have short: "\<not> sublist fragrance_text x" if "length x < 341" for x
  proof
    assume "sublist fragrance_text x"
    then have "length fragrance_text \<le> length x" by (rule sublist_length_le)
    moreover have "length fragrance_text = 341" by (simp add: fragrance_text_def)
    ultimately show False using that by simp
  qed
  have 1: "\<not> sublist fragrance_text notes_phrase"
    by (rule short) (simp add: notes_phrase_def)
  have 2: "\<not> sublist fragrance_text (join models_sep [asc ''A''])"
    by (rule short) (simp add: asc_def)
  have 3: "\<not> sublist fragrance_text (asc ''d'')"
    by (rule short) (simp add: asc_def)
  have 4: "\<not> sublist notes_phrase (asc ''Q'')" "\<not> sublist notes_phrase (asc ''A'')"
    "\<not> sublist notes_phrase (asc ''d'')"
    by (simp_all add: notes_phrase_def asc_def sublist_Cons_right)
  from fragrance_block_iff
         [of "Some (asc ''gift'')" True notes_phrase "[asc ''A'']" "asc ''d''" None] 1 2 3
  have 5: "\<not> sublist fragrance_text
        (buildPrompt notes_phrase [asc ''A''] (asc ''d'') True None (Some (asc ''gift'')))"
    by (simp add: asc_eq_iff)
  from fragrance_block_iff
         [of "Some (asc ''beauty'')" True notes_phrase "[asc ''A'']" "asc ''d''" None] 1 2 3
  have 6: "sublist fragrance_text
        (buildPrompt notes_phrase [asc ''A''] (asc ''d'') True None (Some (asc ''beauty'')))"
    "sublist fragrance_block
        (buildPrompt notes_phrase [asc ''A''] (asc ''d'') True None (Some (asc ''beauty'')))"
    by simp_all
  from fragrance_block_iff
         [of "Some (asc ''gift'')" True "asc ''Q''" "[asc ''A'']" "asc ''d''" None] 4
  have 7: "\<not> sublist notes_phrase
        (buildPrompt (asc ''Q'') [asc ''A''] (asc ''d'') True None (Some (asc ''gift'')))"
    by (simp add: asc_eq_iff)
  from 1 2 3 4 5 6 7 show ?thesis by (simp add: asc_eq_iff)
qed

text \<open>
  C5 as stated fails. The fragrance text is not empty and trimming leaves it as it is,
  so it can be the title of a request; with the content type "gift" and without models,
  as the handler passes them, the output contains it.
\<close>

theorem fragrance_block_counterexample:
  "fragrance_text \<noteq> [] \<and> trim fragrance_text = fragrance_text
   \<and> sublist fragrance_text
        (buildPrompt fragrance_text [] [] False (Some (asc ''random'')) (Some (asc ''gift'')))"
proof -
  have ne: "fragrance_text \<noteq> []" by (simp add: fragrance_text_def)
  have h: "\<not> is_white_space (hd fragrance_text)"
    by (simp add: fragrance_text_def is_white_space_def)
  have l: "\<not> is_white_space (last fragrance_text)"
    by (simp add: fragrance_text_def is_white_space_def)
  from ne h l have "trim fragrance_text = fragrance_text" by (rule trim_fixed)
  moreover have "sublist fragrance_text
        (buildPrompt fragrance_text [] [] False (Some (asc ''random'')) (Some (asc ''gift'')))"
    by (simp add: buildPrompt_def)
  ultimately show ?thesis using ne by simp
qed

section \<open>The search digest: properties\<close>

lemma get_property_own:
  "get_property sd model = OwnValue items \<longleftrightarrow> map_of sd model = Some items"
  by (simp add: get_property_def split: option.splits)

lemma format_model_entry:
  assumes "\<not> reads_method sd model"
  shows "format_model sd model = Inr (product_entry sd model)"
proof -
  show ?thesis
  proof (cases "map_of sd model")
    case (Some items)
    then have "get_property sd model = OwnValue items" by (simp add: get_property_own)
    with Some show ?thesis
      by (cases items)
         (simp_all add: format_model_def product_entry_def digest_line_def [abs_def])
  next
    case None
    then have p: "product_entry sd model = model @ no_summary"
      by (simp add: product_entry_def)
    show ?thesis
    proof (cases "get_property sd model")
      case (OwnValue items)
      then have "map_of sd model = Some items" by (simp add: get_property_own)
      with None show ?thesis by simp
    next
      case (InheritedFunction n)
      with assms have "n = 0" by (simp add: reads_method_def)
      with InheritedFunction p show ?thesis by (simp add: format_model_def)
    next
      case PrototypeObject
      with p show ?thesis by (simp add: format_model_def)
    next
      case Undefined
      with p show ?thesis by (simp add: format_model_def)
    qed
  qed
qed

lemma format_model_throws:
  assumes "reads_method sd model"
  shows "format_model sd model = Inl slice_type_error"
proof (cases "get_property sd model")
  case (InheritedFunction n)
  with assms show ?thesis by (simp add: reads_method_def format_model_def)
qed (use assms in \<open>simp_all add: reads_method_def\<close>)

lemma format_model_error:
  assumes "format_model sd model = Inl e"
  shows "e = slice_type_error"
proof (cases "get_property sd model")
  case (OwnValue items)
  with assms show ?thesis by (cases items) (simp_all add: format_model_def)
next
  case (InheritedFunction n)
  with assms show ?thesis by (cases n) (simp_all add: format_model_def)
qed (use assms in \<open>simp_all add: format_model_def\<close>)

lemma map_throwing_all:
  "list_all (\<lambda>x. f x = Inr (g x)) xs \<Longrightarrow> map_throwing f xs = Inr (map g xs)"
  by (induction xs) auto

lemma map_throwing_some:
  assumes "x \<in> set xs" and "f x = Inl e"
    and "\<forall>y \<in> set xs. \<forall>e'. f y = Inl e' \<longrightarrow> e' = e"
  shows "map_throwing f xs = Inl e"
  using assms
proof (induction xs)
  case Nil
  then show ?case by simp
next
  case (Cons a xs)
  show ?case
  proof (cases "f a")
    case (Inl e')
    with Cons.prems(3) have "e' = e" by simp
    with Inl show ?thesis by simp
  next
    case (Inr y)
    with Cons.prems(1,2) have "x \<in> set xs" by auto
    moreover from Cons.prems(3)
    have "\<forall>y \<in> set xs. \<forall>e'. f y = Inl e' \<longrightarrow> e' = e" by simp
    ultimately have "map_throwing f xs = Inl e" using Cons.prems(2) by (intro Cons.IH)
    with Inr show ?thesis by simp
  qed
qed

text \<open>
  Where no model name reads an inherited method, the digest is the blocks of the
  products, in the order of the models list, joined by blank lines.
\<close>

lemma formatSearchData_digest:
  assumes "list_all (\<lambda>m. \<not> reads_method sd m) models"
  shows "formatSearchData models sd = Inr (join [0x0A, 0x0A] (map (product_entry sd) models))"
proof -
  from assms have "list_all (\<lambda>m. format_model sd m = Inr (product_entry sd m)) models"
    by (induction models) (auto simp: format_model_entry)
  then have "map_throwing (format_model sd) models = Inr (map (product_entry sd) models)"
    by (rule map_throwing_all)
  then show ?thesis by (simp add: formatSearchData_def)
qed

text \<open>Where some model name reads an inherited method, there is no digest.\<close>

lemma formatSearchData_throws:
  assumes "m \<in> set models" and "reads_method sd m"
  shows "formatSearchData models sd = Inl slice_type_error"
proof -
  from assms(2) have 1: "format_model sd m = Inl slice_type_error"
    by (rule format_model_throws)
  have 2: "\<forall>y \<in> set models. \<forall>e'. format_model sd y = Inl e' \<longrightarrow> e' = slice_type_error"
    using format_model_error by blast
  from assms(1) 1 2 have "map_throwing (format_model sd) models = Inl slice_type_error"
    by (rule map_throwing_some)
  then show ?thesis by (simp add: formatSearchData_def)
qed

section \<open>Search normalization: properties\<close>

lemma normalize_results_fields:
  "map (\<lambda>r. (res_title r, res_snippet r, res_link r, res_source r)) (normalize_results organic)
   = List.map_filter complete_fields organic"
  by (induction organic)
     (auto simp: normalize_results_def complete_fields_def truthy_def List.map_filter_simps
           split: option.splits)

text \<open>
  C7, as the code has it. The output is made from exactly the raw results that have a
  title, a snippet and a link (each present and not empty), one output item for each of
  them, in their input order, carrying the three values of the raw result and the tag
  "serpstack"; every raw result that misses one of the three gives no item. The output
  is never longer than the raw list. The cap of ten is only asked of the provider
  (\<open>num=10\<close> in the query); nothing bounds the list the provider sends back.
\<close>

theorem normalize_results_filter:
  "map (\<lambda>r. (res_title r, res_snippet r, res_link r, res_source r)) (normalize_results organic)
     = List.map_filter complete_fields organic
   \<and> (org_title item = None \<or> org_snippet item = None \<or> org_url item = None
        \<longrightarrow> complete_fields item = None)
   \<and> (org_title item = Some t \<and> org_snippet item = Some s \<and> org_url item = Some u
        \<and> t \<noteq> [] \<and> s \<noteq> [] \<and> u \<noteq> []
        \<longrightarrow> complete_fields item = Some (t, s, u, asc ''serpstack''))
   \<and> normalize_results (xs @ ys) = normalize_results xs @ normalize_results ys
   \<and> length (normalize_results organic) \<le> length organic"
proof (intro conjI)
  show "map (\<lambda>r. (res_title r, res_snippet r, res_link r, res_source r))
          (normalize_results organic)
        = List.map_filter complete_fields organic"
    by (rule normalize_results_fields)
  show "org_title item = None \<or> org_snippet item = None \<or> org_url item = None
        \<longrightarrow> complete_fields item = None"
    by (auto simp: complete_fields_def split: option.splits)
  show "org_title item = Some t \<and> org_snippet item = Some s \<and> org_url item = Some u
        \<and> t \<noteq> [] \<and> s \<noteq> [] \<and> u \<noteq> []
        \<longrightarrow> complete_fields item = Some (t, s, u, asc ''serpstack'')"
    by (auto simp: complete_fields_def)
  show "normalize_results (xs @ ys) = normalize_results xs @ normalize_results ys"
    by (simp add: normalize_results_def)
  show "length (normalize_results organic) \<le> length organic"
    by (simp add: normalize_results_def)
qed

theorem normalize_results_filter_witness:
  "org_snippet organic_no_snippet = None
   \<and> complete_fields organic_no_snippet = None
   \<and> org_title organic_full = Some (asc ''t'') \<and> org_snippet organic_full = Some (asc ''s'')
   \<and> org_url organic_full = Some (asc ''u'')
   \<and> asc ''t'' \<noteq> [] \<and> asc ''s'' \<noteq> [] \<and> asc ''u'' \<noteq> []
   \<and> complete_fields organic_full = Some (asc ''t'', asc ''s'', asc ''u'', asc ''serpstack'')
   \<and> map (\<lambda>r. (res_title r, res_snippet r, res_link r, res_source r))
        (normalize_results [organic_full, organic_no_snippet, organic_full])
      = [(asc ''t'', asc ''s'', asc ''u'', asc ''serpstack''),
         (asc ''t'', asc ''s'', asc ''u'', asc ''serpstack'')]"
proof -
  have f: "org_title organic_full = Some (asc ''t'')" "org_snippet organic_full = Some (asc ''s'')"
    "org_url organic_full = Some (asc ''u'')" "asc ''t'' \<noteq> []" "asc ''s'' \<noteq> []"
    "asc ''u'' \<noteq> []"
    by (simp_all add: organic_full_def asc_Nil_iff)
  have n: "org_snippet organic_no_snippet = None" by (simp add: organic_no_snippet_def)
  from normalize_results_filter
         [where item = organic_no_snippet] n
  have 1: "complete_fields organic_no_snippet = None" by blast
  from normalize_results_filter
         [where item = organic_full and t = "asc ''t''" and s = "asc ''s''" and u = "asc ''u''"] f
  have 2: "complete_fields organic_full
           = Some (asc ''t'', asc ''s'', asc ''u'', asc ''serpstack'')"
    by blast
  from normalize_results_filter
         [where organic = "[organic_full, organic_no_snippet, organic_full]"]
  have "map (\<lambda>r. (res_title r, res_snippet r, res_link r, res_source r))
        (normalize_results [organic_full, organic_no_snippet, organic_full])
      = List.map_filter complete_fields [organic_full, organic_no_snippet, organic_full]"
    by blast
  then have 3: "map (\<lambda>r. (res_title r, res_snippet r, res_link r, res_source r))
        (normalize_results [organic_full, organic_no_snippet, organic_full])
      = [(asc ''t'', asc ''s'', asc ''u'', asc ''serpstack''),
         (asc ''t'', asc ''s'', asc ''u'', asc ''serpstack'')]"
    by (simp add: List.map_filter_simps 1 2)
  from f n 1 2 3 show ?thesis by simp
qed

text \<open>
  C7 as stated fails: for eleven complete raw results the output has eleven items,
  more than the cap of ten.
\<close>

theorem normalize_results_cap_counterexample:
  "length (normalize_results (replicate 11 organic_full)) = 11"
  by (simp add: normalize_results_def truthy_def organic_full_def asc_Nil_iff)

section \<open>The generate endpoint: properties\<close>

lemma catch_reply_status: "status (catch_reply e) = 500"
  by (simp add: catch_reply_def)

lemma generate_POST_no_title:
  assumes "body_title b = None \<or> (\<exists>t. body_title b = Some t \<and> trim t = [])"
  shows "generate_POST ps env now net (Body b)
         = \<lparr>reply = \<lparr>status = 400, payload = ErrorReply err_title\<rparr>, calls = []\<rparr>"
proof -
  have title: "or_default (map_option trim (body_title b)) [] = []"
    using assms by (auto simp: or_default_def js_or_def)
  show ?thesis
    unfolding generate_POST_def request.case Let_def title by (simp only: simp_thms if_True)
qed

lemma generate_POST_no_searchData:
  assumes "body_title b = Some t" and "trim t \<noteq> []"
    and "clean_models (body_models b) \<noteq> []"
    and "body_searchData b = None \<or> body_searchData b = Some []"
  shows "generate_POST ps env now net (Body b)
         = \<lparr>reply = \<lparr>status = 400, payload = ErrorReply err_searchData\<rparr>, calls = []\<rparr>"
proof -
  have title: "or_default (map_option trim (body_title b)) [] = trim t"
    using assms(1,2) by (simp add: or_default_def js_or_def)
  have sd: "(clean_models (body_models b) \<noteq> [] \<and>
            (case body_searchData b of None \<Rightarrow> True | Some sd \<Rightarrow> sd = [])) = True"
    using assms(3,4) by auto
  show ?thesis
    unfolding generate_POST_def request.case Let_def title sd
    using assms(2) by (simp only: simp_thms if_False if_True)
qed

text \<open>
  A request that passes validation and whose digest is formed: the one call it may make,
  and its reply.
\<close>

lemma generate_POST_validated:
  assumes "body_title b = Some t" and "trim t \<noteq> []"
    and "clean_models (body_models b) = [] \<or> (\<exists>sd. body_searchData b = Some sd \<and> sd \<noteq> [])"
    and "(if clean_models (body_models b) \<noteq> []
        then formatSearchData (clean_models (body_models b))
               (case body_searchData b of None \<Rightarrow> [] | Some sd \<Rightarrow> sd)
        else Inr []) = Inr d"
  shows "\<exists>call.
      call_url call
        = or_default (AI_API_URL env) (asc ''https://api.openai.com/v1/chat/completions'')
    \<and> call_abort_after_ms call = 120000
    \<and> call_user call =
        buildPrompt (trim t) (clean_models (body_models b)) d
          (clean_models (body_models b) \<noteq> [])
          (Some (or_default (body_stylePreference b) (asc ''random'')))
          (Some (or_default (body_contentType b) (asc ''discussion'')))
    \<and> call_system call =
        join [0x0A, 0x0A] (filter (\<lambda>s. s \<noteq> [])
          [zhihuPersona,
           selectContentPrompt ps (or_default (body_contentType b) (asc ''discussion'')),
           selectStyleHint (or_default (body_stylePreference b) (asc ''random''))])
    \<and> generate_POST ps env now net (Body b) =
       (if or_default (AI_API_KEY env) (or_default (OPENAI_API_KEY env) []) = [] then
           \<lparr>reply = \<lparr>status = 500, payload = ErrorReply err_key\<rparr>, calls = []\<rparr>
        else
           \<lparr>reply = (case complete (call_url call) (net call) of
                       Inl error \<Rightarrow> catch_reply error
                     | Inr article \<Rightarrow>
                        \<lparr>status = 200,
                         payload = ArticleReply article
                           \<lparr>md_title = trim t, md_models = clean_models (body_models b),
                            md_contentType = or_default (body_contentType b) (asc ''discussion''),
                            md_stylePreference =
                              or_default (body_stylePreference b) (asc ''random''),
                            md_generatedAt = now\<rparr>\<rparr>),
            calls = [call]\<rparr>)"
proof -
  have title: "or_default (map_option trim (body_title b)) [] = trim t"
    using assms(1,2) by (simp add: or_default_def js_or_def)
  have sd: "(clean_models (body_models b) \<noteq> [] \<and>
            (case body_searchData b of None \<Rightarrow> True | Some sd \<Rightarrow> sd = [])) = False"
    using assms(3) by auto
  show ?thesis
    unfolding generate_POST_def request.case Let_def title sd assms(4) sum.case
    using assms(2)
    by (intro exI[of _ "\<lparr>call_url = or_default (AI_API_URL env)
                          (asc ''https://api.openai.com/v1/chat/completions''),
          call_authorization = asc ''Bearer ''
            @ or_default (AI_API_KEY env) (or_default (OPENAI_API_KEY env) []),
          call_model = asc ''gpt-4.1'',
          call_system = join [0x0A, 0x0A] (filter (\<lambda>s. s \<noteq> [])
            [zhihuPersona,
             selectContentPrompt ps (or_default (body_contentType b) (asc ''discussion'')),
             selectStyleHint (or_default (body_stylePreference b) (asc ''random''))]),
          call_user = buildPrompt (trim t) (clean_models (body_models b)) d
            (clean_models (body_models b) \<noteq> [])
            (Some (or_default (body_stylePreference b) (asc ''random'')))
            (Some (or_default (body_contentType b) (asc ''discussion''))),
          call_abort_after_ms = 120000\<rparr>"])
       (simp only: completion_call.select_convs if_False simp_thms)
qed

text \<open>A request that passes validation and whose digest throws.\<close>

lemma generate_POST_digest_throws:
  assumes "body_title b = Some t" and "trim t \<noteq> []"
    and "clean_models (body_models b) = [] \<or> (\<exists>sd. body_searchData b = Some sd \<and> sd \<noteq> [])"
    and "(if clean_models (body_models b) \<noteq> []
        then formatSearchData (clean_models (body_models b))
               (case body_searchData b of None \<Rightarrow> [] | Some sd \<Rightarrow> sd)
        else Inr []) = Inl e"
  shows "generate_POST ps env now net (Body b) = \<lparr>reply = catch_reply e, calls = []\<rparr>"
proof -
  have title: "or_default (map_option trim (body_title b)) [] = trim t"
    using assms(1,2) by (simp add: or_default_def js_or_def)
  have sd: "(clean_models (body_models b) \<noteq> [] \<and>
            (case body_searchData b of None \<Rightarrow> True | Some sd \<Rightarrow> sd = [])) = False"
    using assms(3) by auto
  show ?thesis
    unfolding generate_POST_def request.case Let_def title sd assms(4) sum.case
    using assms(2) by (simp only: if_False simp_thms)
qed

lemma generate_POST_status:
  assumes "body_title b = Some t" and "trim t \<noteq> []"
    and "clean_models (body_models b) = [] \<or> (\<exists>sd. body_searchData b = Some sd \<and> sd \<noteq> [])"
  shows "status (reply (generate_POST ps env now net (Body b))) = 200
       \<or> status (reply (generate_POST ps env now net (Body b))) = 500"
proof (cases "(if clean_models (body_models b) \<noteq> []
        then formatSearchData (clean_models (body_models b))
               (case body_searchData b of None \<Rightarrow> [] | Some sd \<Rightarrow> sd)
        else Inr [])")
  case (Inl e)
  from generate_POST_digest_throws [OF assms Inl] show ?thesis
    by (simp add: catch_reply_status)
next
  case (Inr d)
  from generate_POST_validated [OF assms Inr, of env ps now net]
  obtain call where eq: "generate_POST ps env now net (Body b) =
       (if or_default (AI_API_KEY env) (or_default (OPENAI_API_KEY env) []) = [] then
           \<lparr>reply = \<lparr>status = 500, payload = ErrorReply err_key\<rparr>, calls = []\<rparr>
        else
           \<lparr>reply = (case complete (call_url call) (net call) of
                       Inl error \<Rightarrow> catch_reply error
                     | Inr article \<Rightarrow>
                        \<lparr>status = 200,
                         payload = ArticleReply article
                           \<lparr>md_title = trim t, md_models = clean_models (body_models b),
                            md_contentType = or_default (body_contentType b) (asc ''discussion''),
                            md_stylePreference =
                              or_default (body_stylePreference b) (asc ''random''),
                            md_generatedAt = now\<rparr>\<rparr>),
            calls = [call]\<rparr>)"
    by blast
  show ?thesis unfolding eq
    by (cases "complete (call_url call) (net call)") (simp_all add: catch_reply_status)
qed

lemma trim_samples:
  "trim (asc '' Q '') = asc ''Q''" "trim (asc ''  '') = []" "trim [] = []"
  "trim (asc ''Q'') = asc ''Q''" "trim (asc '' A '') = asc ''A''"
  by (simp_all add: trim_def asc_def is_white_space_def)

lemma clean_models_samples:
  "clean_models (Some [asc ''  '', []]) = []" "clean_models None = []"
  "clean_models (Some [asc '' A '']) = [asc ''A'']"
  by (simp_all add: clean_models_def trim_samples asc_Nil_iff)

text \<open>
  C1. For a request whose body has been read: when the title is missing or trims to
  the empty string, the reply is 400 with the title message; when the title is there and
  the cleaned models list is not empty but \<open>searchData\<close> is absent or has no keys, the
  reply is 400 with the search-data message; when the title is there and the cleaned
  models list is empty, the reply is not a 400, whatever \<open>searchData\<close> is.
\<close>

theorem generate_POST_validation:
  "((body_title b = None \<or> (\<exists>t. body_title b = Some t \<and> trim t = [])) \<longrightarrow>
      reply (generate_POST ps env now net (Body b))
        = \<lparr>status = 400, payload = ErrorReply err_title\<rparr>)
   \<and> ((\<exists>t. body_title b = Some t \<and> trim t \<noteq> []) \<and> clean_models (body_models b) \<noteq> []
        \<and> (body_searchData b = None \<or> body_searchData b = Some []) \<longrightarrow>
      reply (generate_POST ps env now net (Body b))
        = \<lparr>status = 400, payload = ErrorReply err_searchData\<rparr>)
   \<and> ((\<exists>t. body_title b = Some t \<and> trim t \<noteq> []) \<and> clean_models (body_models b) = [] \<longrightarrow>
      status (reply (generate_POST ps env now net (Body b))) \<noteq> 400)"
proof (intro conjI impI)
  assume "body_title b = None \<or> (\<exists>t. body_title b = Some t \<and> trim t = [])"
  then show "reply (generate_POST ps env now net (Body b))
        = \<lparr>status = 400, payload = ErrorReply err_title\<rparr>"
    by (simp add: generate_POST_no_title)
next
  assume a: "(\<exists>t. body_title b = Some t \<and> trim t \<noteq> []) \<and> clean_models (body_models b) \<noteq> []
        \<and> (body_searchData b = None \<or> body_searchData b = Some [])"
  then obtain t where "body_title b = Some t" "trim t \<noteq> []" by blast
  with a have "generate_POST ps env now net (Body b)
         = \<lparr>reply = \<lparr>status = 400, payload = ErrorReply err_searchData\<rparr>, calls = []\<rparr>"
    by (intro generate_POST_no_searchData) auto
  then show "reply (generate_POST ps env now net (Body b))
        = \<lparr>status = 400, payload = ErrorReply err_searchData\<rparr>"
    by simp
next
  assume "(\<exists>t. body_title b = Some t \<and> trim t \<noteq> []) \<and> clean_models (body_models b) = []"
  then obtain t where "body_title b = Some t" "trim t \<noteq> []" "clean_models (body_models b) = []"
    by blast
  then have "status (reply (generate_POST ps env now net (Body b))) = 200
       \<or> status (reply (generate_POST ps env now net (Body b))) = 500"
    by (intro generate_POST_status) auto
  then show "status (reply (generate_POST ps env now net (Body b))) \<noteq> 400" by auto
qed

theorem generate_POST_validation_witness:
  "reply (generate_POST prompts_partial env_with_key sample_time net_article (Body blank_title))
        = \<lparr>status = 400, payload = ErrorReply err_title\<rparr>
   \<and> reply (generate_POST prompts_partial env_with_key sample_time net_article
               (Body model_without_data))
        = \<lparr>status = 400, payload = ErrorReply err_searchData\<rparr>
   \<and> status (reply (generate_POST prompts_partial env_with_key sample_time net_article
                       (Body question_only))) \<noteq> 400"
  using generate_POST_validation
          [of blank_title prompts_partial env_with_key sample_time net_article]
    generate_POST_validation
          [of model_without_data prompts_partial env_with_key sample_time net_article]
    generate_POST_validation
          [of question_only prompts_partial env_with_key sample_time net_article]
  by (simp add: blank_title_def model_without_data_def question_only_def trim_samples
      clean_models_samples asc_Nil_iff)

lemma messages_distinct:
  "err_timeout \<noteq> err_connect_pre @ u @ err_connect_post"
  "err_timeout \<noteq> err_api_pre @ s"
  "err_timeout \<noteq> err_empty"
  "err_connect_pre @ u @ err_connect_post \<noteq> err_api_pre @ s"
  "err_connect_pre @ u @ err_connect_post \<noteq> err_empty"
  "err_api_pre @ s \<noteq> err_empty"
  "err_key \<noteq> err_timeout"
  "err_key \<noteq> err_connect_pre @ u @ err_connect_post"
  "err_key \<noteq> err_api_pre @ s"
  "err_key \<noteq> err_empty"
  by (simp_all add: err_timeout_def err_connect_pre_def err_api_pre_def err_empty_def err_key_def)

lemma complete_cases:
  "complete url (FetchRejects (ErrorObj name msg)) =
     Inl (if name = asc ''AbortError'' \<or> str_includes msg (asc ''timeout'')
          then new_Error err_timeout
          else if str_includes msg (asc ''Failed to fetch'') \<or> str_includes msg (asc ''fetch failed'')
          then new_Error (err_connect_pre @ url @ err_connect_post)
          else new_Error (err_network_pre @ msg))"
  "\<not> resp_ok response \<Longrightarrow> resp_text response = Inr errorText \<Longrightarrow>
     complete url (FetchResolves response) =
       Inl (new_Error (err_api_pre @ show_nat (resp_status response) @ asc ''): '' @ take 200 errorText))"
  "resp_ok response \<Longrightarrow> resp_json response = Inr data \<Longrightarrow>
     first_content data = None \<or> first_content data = Some [] \<Longrightarrow>
     complete url (FetchResolves response) = Inl (new_Error err_empty)"
  by (auto simp: complete_def read_article_def or_default_def js_or_def Let_def)

lemma catch_reply_new_Error:
  "catch_reply (new_Error msg) = \<lparr>status = 500, payload = ErrorReply msg\<rparr>"
  by (simp add: catch_reply_def new_Error_def)

text \<open>
  C2. For a request that passes validation: without a credential the reply is 500 and
  no call is made, and the reply carries the credential message whenever the digest is
  formed. With a credential and the digest formed, exactly one call is made. No request
  makes more than one call, and a call that is made goes to the configured endpoint
  with an abort timer of 120000 milliseconds, and
  \<^item> when the call is aborted, or fails with a message that contains "timeout", the reply
    is 500 with the timeout message;
  \<^item> when the call fails otherwise with a message that contains "Failed to fetch" or
    "fetch failed", the reply is 500 with the message that names the endpoint;
  \<^item> when the endpoint answers outside 200 to 299 and its body can be read, the reply is
    500 with the upstream message, the status and the first 200 code units of the body;
  \<^item> when the endpoint answers within 200 to 299 and the extracted text is missing or
    empty, the reply is 500 with the empty-generation message.
  When forming the digest throws, the reply is that of the \<open>catch\<close> clause and no call
  is made. The five messages are pairwise different, whatever the endpoint, status and
  body; the timeout message contains the word for "timed out" and "120".
\<close>

lemma messages_distinct_all:
  "err_timeout \<noteq> err_connect_pre @ u @ err_connect_post
   \<and> err_timeout \<noteq> err_api_pre @ s
   \<and> err_timeout \<noteq> err_empty
   \<and> err_connect_pre @ u @ err_connect_post \<noteq> err_api_pre @ s
   \<and> err_connect_pre @ u @ err_connect_post \<noteq> err_empty
   \<and> err_api_pre @ s \<noteq> err_empty
   \<and> err_key \<noteq> err_timeout
   \<and> err_key \<noteq> err_connect_pre @ u @ err_connect_post
   \<and> err_key \<noteq> err_api_pre @ s
   \<and> err_key \<noteq> err_empty
   \<and> sublist [0x8D85, 0x65F6] err_timeout \<and> sublist (asc ''120'') err_timeout"
  by (simp add: messages_distinct)
     (simp add: err_timeout_def asc_def sublist_Cons_right)

theorem generate_POST_failures:
  assumes "body_title b = Some t" and "trim t \<noteq> []"
    and "clean_models (body_models b) = [] \<or> (\<exists>sd. body_searchData b = Some sd \<and> sd \<noteq> [])"
  shows
  "(or_default (AI_API_KEY env) (or_default (OPENAI_API_KEY env) []) = [] \<longrightarrow>
      status (reply (generate_POST ps env now net (Body b))) = 500
      \<and> calls (generate_POST ps env now net (Body b)) = [])
   \<and> (or_default (AI_API_KEY env) (or_default (OPENAI_API_KEY env) []) = []
       \<and> (clean_models (body_models b) = []
            \<or> (\<exists>d. formatSearchData (clean_models (body_models b))
                (case body_searchData b of None \<Rightarrow> [] | Some sd \<Rightarrow> sd) = Inr d)) \<longrightarrow>
      reply (generate_POST ps env now net (Body b))
        = \<lparr>status = 500, payload = ErrorReply err_key\<rparr>)
   \<and> (or_default (AI_API_KEY env) (or_default (OPENAI_API_KEY env) []) \<noteq> []
       \<and> (clean_models (body_models b) = []
            \<or> (\<exists>d. formatSearchData (clean_models (body_models b))
                (case body_searchData b of None \<Rightarrow> [] | Some sd \<Rightarrow> sd) = Inr d)) \<longrightarrow>
      (\<exists>call. calls (generate_POST ps env now net (Body b)) = [call]))
   \<and> (calls (generate_POST ps env now net (Body b)) = []
       \<or> (\<exists>call. calls (generate_POST ps env now net (Body b)) = [call]))
   \<and> (\<forall>call. calls (generate_POST ps env now net (Body b)) = [call] \<longrightarrow>
         call_url call
             = or_default (AI_API_URL env) (asc ''https://api.openai.com/v1/chat/completions'')
         \<and> call_abort_after_ms call = 120000
         \<and> (\<forall>name msg. net call = FetchRejects (ErrorObj name msg)
               \<and> (name = asc ''AbortError'' \<or> str_includes msg (asc ''timeout'')) \<longrightarrow>
               reply (generate_POST ps env now net (Body b))
                 = \<lparr>status = 500, payload = ErrorReply err_timeout\<rparr>)
         \<and> (\<forall>name msg. net call = FetchRejects (ErrorObj name msg)
               \<and> name \<noteq> asc ''AbortError'' \<and> \<not> str_includes msg (asc ''timeout'')
               \<and> (str_includes msg (asc ''Failed to fetch'')
                    \<or> str_includes msg (asc ''fetch failed'')) \<longrightarrow>
               reply (generate_POST ps env now net (Body b))
                 = \<lparr>status = 500,
                    payload = ErrorReply (err_connect_pre @ call_url call @ err_connect_post)\<rparr>)
         \<and> (\<forall>response errorText. net call = FetchResolves response
               \<and> \<not> (200 \<le> resp_status response \<and> resp_status response \<le> 299)
               \<and> resp_text response = Inr errorText \<longrightarrow>
               reply (generate_POST ps env now net (Body b))
                 = \<lparr>status = 500,
                    payload = ErrorReply (err_api_pre @ show_nat (resp_status response)
                                          @ asc ''): '' @ take 200 errorText)\<rparr>)
         \<and> (\<forall>response data. net call = FetchResolves response
               \<and> 200 \<le> resp_status response \<and> resp_status response \<le> 299
               \<and> resp_json response = Inr data
               \<and> (first_content data = None \<or> first_content data = Some []) \<longrightarrow>
               reply (generate_POST ps env now net (Body b))
                 = \<lparr>status = 500, payload = ErrorReply err_empty\<rparr>))
   \<and> (\<forall>e. clean_models (body_models b) \<noteq> []
         \<and> formatSearchData (clean_models (body_models b))
                (case body_searchData b of None \<Rightarrow> [] | Some sd \<Rightarrow> sd) = Inl e \<longrightarrow>
         generate_POST ps env now net (Body b) = \<lparr>reply = catch_reply e, calls = []\<rparr>)
   \<and> (err_timeout \<noteq> err_connect_pre @ u @ err_connect_post
   \<and> err_timeout \<noteq> err_api_pre @ s
   \<and> err_timeout \<noteq> err_empty
   \<and> err_connect_pre @ u @ err_connect_post \<noteq> err_api_pre @ s
   \<and> err_connect_pre @ u @ err_connect_post \<noteq> err_empty
   \<and> err_api_pre @ s \<noteq> err_empty
   \<and> err_key \<noteq> err_timeout
   \<and> err_key \<noteq> err_connect_pre @ u @ err_connect_post
   \<and> err_key \<noteq> err_api_pre @ s
   \<and> err_key \<noteq> err_empty
   \<and> sublist [0x8D85, 0x65F6] err_timeout \<and> sublist (asc ''120'') err_timeout)"
proof -
  let ?key = "or_default (AI_API_KEY env) (or_default (OPENAI_API_KEY env) [])"
  let ?h = "generate_POST ps env now net (Body b)"
  let ?formed = "clean_models (body_models b) = []
            \<or> (\<exists>d. formatSearchData (clean_models (body_models b))
                (case body_searchData b of None \<Rightarrow> [] | Some sd \<Rightarrow> sd) = Inr d)"
  let ?C1 = "?key = [] \<longrightarrow> status (reply ?h) = 500 \<and> calls ?h = []"
  let ?C2 = "?key = [] \<and> ?formed \<longrightarrow>
      reply ?h = \<lparr>status = 500, payload = ErrorReply err_key\<rparr>"
  let ?C3 = "?key \<noteq> [] \<and> ?formed \<longrightarrow> (\<exists>call. calls ?h = [call])"
  let ?C4 = "calls ?h = [] \<or> (\<exists>call. calls ?h = [call])"
  let ?C5 = "\<forall>call. calls ?h = [call] \<longrightarrow>
         call_url call
             = or_default (AI_API_URL env) (asc ''https://api.openai.com/v1/chat/completions'')
         \<and> call_abort_after_ms call = 120000
         \<and> (\<forall>name msg. net call = FetchRejects (ErrorObj name msg)
               \<and> (name = asc ''AbortError'' \<or> str_includes msg (asc ''timeout'')) \<longrightarrow>
               reply (generate_POST ps env now net (Body b))
                 = \<lparr>status = 500, payload = ErrorReply err_timeout\<rparr>)
         \<and> (\<forall>name msg. net call = FetchRejects (ErrorObj name msg)
               \<and> name \<noteq> asc ''AbortError'' \<and> \<not> str_includes msg (asc ''timeout'')
               \<and> (str_includes msg (asc ''Failed to fetch'')
                    \<or> str_includes msg (asc ''fetch failed'')) \<longrightarrow>
               reply (generate_POST ps env now net (Body b))
                 = \<lparr>status = 500,
                    payload = ErrorReply (err_connect_pre @ call_url call @ err_connect_post)\<rparr>)
         \<and> (\<forall>response errorText. net call = FetchResolves response
               \<and> \<not> (200 \<le> resp_status response \<and> resp_status response \<le> 299)
               \<and> resp_text response = Inr errorText \<longrightarrow>
               reply (generate_POST ps env now net (Body b))
                 = \<lparr>status = 500,
                    payload = ErrorReply (err_api_pre @ show_nat (resp_status response)
                                          @ asc ''): '' @ take 200 errorText)\<rparr>)
         \<and> (\<forall>response data. net call = FetchResolves response
               \<and> 200 \<le> resp_status response \<and> resp_status response \<le> 299
               \<and> resp_json response = Inr data
               \<and> (first_content data = None \<or> first_content data = Some []) \<longrightarrow>
               reply (generate_POST ps env now net (Body b))
                 = \<lparr>status = 500, payload = ErrorReply err_empty\<rparr>)"
  let ?C6 = "\<forall>e. clean_models (body_models b) \<noteq> []
         \<and> formatSearchData (clean_models (body_models b))
                (case body_searchData b of None \<Rightarrow> [] | Some sd \<Rightarrow> sd) = Inl e \<longrightarrow>
         ?h = \<lparr>reply = catch_reply e, calls = []\<rparr>"
  have c6: ?C6
  proof (intro allI impI)
    fix e
    assume "clean_models (body_models b) \<noteq> []
         \<and> formatSearchData (clean_models (body_models b))
                (case body_searchData b of None \<Rightarrow> [] | Some sd \<Rightarrow> sd) = Inl e"
    then have "(if clean_models (body_models b) \<noteq> []
        then formatSearchData (clean_models (body_models b))
               (case body_searchData b of None \<Rightarrow> [] | Some sd \<Rightarrow> sd)
        else Inr []) = Inl e" by simp
    with assms show "?h = \<lparr>reply = catch_reply e, calls = []\<rparr>"
      by (rule generate_POST_digest_throws)
  qed
  have dist: "err_timeout \<noteq> err_connect_pre @ u @ err_connect_post
   \<and> err_timeout \<noteq> err_api_pre @ s
   \<and> err_timeout \<noteq> err_empty
   \<and> err_connect_pre @ u @ err_connect_post \<noteq> err_api_pre @ s
   \<and> err_connect_pre @ u @ err_connect_post \<noteq> err_empty
   \<and> err_api_pre @ s \<noteq> err_empty
   \<and> err_key \<noteq> err_timeout
   \<and> err_key \<noteq> err_connect_pre @ u @ err_connect_post
   \<and> err_key \<noteq> err_api_pre @ s
   \<and> err_key \<noteq> err_empty
   \<and> sublist [0x8D85, 0x65F6] err_timeout \<and> sublist (asc ''120'') err_timeout"
    by (rule messages_distinct_all)
  show ?thesis
  proof (cases "(if clean_models (body_models b) \<noteq> []
        then formatSearchData (clean_models (body_models b))
               (case body_searchData b of None \<Rightarrow> [] | Some sd \<Rightarrow> sd)
        else Inr [])")
    case (Inl e)
    then have m: "clean_models (body_models b) \<noteq> []"
      and f: "formatSearchData (clean_models (body_models b))
                (case body_searchData b of None \<Rightarrow> [] | Some sd \<Rightarrow> sd) = Inl e"
      by (simp_all split: if_splits)
    from generate_POST_digest_throws [OF assms Inl, of ps env now net]
    have h: "?h = \<lparr>reply = catch_reply e, calls = []\<rparr>" .
    from h have s: "status (reply ?h) = 500" and n: "calls ?h = []"
      by (simp_all add: catch_reply_status)
    from m f have nf: "\<not> ?formed" by simp
    from s n have c1: ?C1 by simp
    from nf have c2: ?C2 by simp
    from nf have c3: ?C3 by simp
    from n have c4: ?C4 by simp
    from n have c5: ?C5 by simp
    show ?thesis
      by (rule conjI, rule c1, rule conjI, rule c2, rule conjI, rule c3, rule conjI, rule c4,
          rule conjI, rule c5, rule conjI, rule c6, rule dist)
  next
    case (Inr d)
    from generate_POST_validated [OF assms Inr, of env ps now net]
    obtain call where
      url: "call_url call
             = or_default (AI_API_URL env) (asc ''https://api.openai.com/v1/chat/completions'')"
      and ms: "call_abort_after_ms call = 120000"
      and eq: "generate_POST ps env now net (Body b) =
       (if or_default (AI_API_KEY env) (or_default (OPENAI_API_KEY env) []) = [] then
           \<lparr>reply = \<lparr>status = 500, payload = ErrorReply err_key\<rparr>, calls = []\<rparr>
        else
           \<lparr>reply = (case complete (call_url call) (net call) of
                       Inl error \<Rightarrow> catch_reply error
                     | Inr article \<Rightarrow>
                        \<lparr>status = 200,
                         payload = ArticleReply article
                           \<lparr>md_title = trim t, md_models = clean_models (body_models b),
                            md_contentType = or_default (body_contentType b) (asc ''discussion''),
                            md_stylePreference =
                              or_default (body_stylePreference b) (asc ''random''),
                            md_generatedAt = now\<rparr>\<rparr>),
            calls = [call]\<rparr>)"
      by blast
    have c1: ?C1 by (simp add: eq)
    have c2: ?C2 by (simp add: eq)
    have "?key \<noteq> [] \<longrightarrow> calls ?h = [call]" by (simp add: eq)
    then have c3: ?C3 by blast
    have "calls ?h = [] \<or> calls ?h = [call]" by (simp add: eq)
    then have c4: ?C4 by blast
    have c5: ?C5
    proof (intro allI impI)
      fix call'
      assume c: "calls ?h = [call']"
      then have key: "?key \<noteq> []" and same: "call' = call"
        by (simp_all add: eq split: if_splits)
      show "call_url call'
             = or_default (AI_API_URL env) (asc ''https://api.openai.com/v1/chat/completions'')
         \<and> call_abort_after_ms call' = 120000
         \<and> (\<forall>name msg. net call' = FetchRejects (ErrorObj name msg)
               \<and> (name = asc ''AbortError'' \<or> str_includes msg (asc ''timeout'')) \<longrightarrow>
               reply (generate_POST ps env now net (Body b))
                 = \<lparr>status = 500, payload = ErrorReply err_timeout\<rparr>)
         \<and> (\<forall>name msg. net call' = FetchRejects (ErrorObj name msg)
               \<and> name \<noteq> asc ''AbortError'' \<and> \<not> str_includes msg (asc ''timeout'')
               \<and> (str_includes msg (asc ''Failed to fetch'')
                    \<or> str_includes msg (asc ''fetch failed'')) \<longrightarrow>
               reply (generate_POST ps env now net (Body b))
                 = \<lparr>status = 500,
                    payload = ErrorReply (err_connect_pre @ call_url call' @ err_connect_post)\<rparr>)
         \<and> (\<forall>response errorText. net call' = FetchResolves response
               \<and> \<not> (200 \<le> resp_status response \<and> resp_status response \<le> 299)
               \<and> resp_text response = Inr errorText \<longrightarrow>
               reply (generate_POST ps env now net (Body b))
                 = \<lparr>status = 500,
                    payload = ErrorReply (err_api_pre @ show_nat (resp_status response)
                                          @ asc ''): '' @ take 200 errorText)\<rparr>)
         \<and> (\<forall>response data. net call' = FetchResolves response
               \<and> 200 \<le> resp_status response \<and> resp_status response \<le> 299
               \<and> resp_json response = Inr data
               \<and> (first_content data = None \<or> first_content data = Some []) \<longrightarrow>
               reply (generate_POST ps env now net (Body b))
                 = \<lparr>status = 500, payload = ErrorReply err_empty\<rparr>)"
        unfolding same
      proof (intro conjI allI impI)
        show "call_url call
           = or_default (AI_API_URL env) (asc ''https://api.openai.com/v1/chat/completions'')"
          by (rule url)
        show "call_abort_after_ms call = 120000" by (rule ms)
      next
        fix name msg
        assume "net call = FetchRejects (ErrorObj name msg)
               \<and> (name = asc ''AbortError'' \<or> str_includes msg (asc ''timeout''))"
        then have "complete (call_url call) (net call) = Inl (new_Error err_timeout)"
          by (auto simp: complete_cases(1))
        with key show "reply ?h = \<lparr>status = 500, payload = ErrorReply err_timeout\<rparr>"
          by (simp add: eq catch_reply_new_Error)
      next
        fix name msg
        assume "net call = FetchRejects (ErrorObj name msg)
               \<and> name \<noteq> asc ''AbortError'' \<and> \<not> str_includes msg (asc ''timeout'')
               \<and> (str_includes msg (asc ''Failed to fetch'')
                    \<or> str_includes msg (asc ''fetch failed''))"
        then have "complete (call_url call) (net call)
               = Inl (new_Error (err_connect_pre @ call_url call @ err_connect_post))"
          by (auto simp: complete_cases(1))
        with key show "reply ?h = \<lparr>status = 500,
                    payload = ErrorReply (err_connect_pre @ call_url call @ err_connect_post)\<rparr>"
          by (simp add: eq catch_reply_new_Error)
      next
        fix response errorText
        assume a: "net call = FetchResolves response
               \<and> \<not> (200 \<le> resp_status response \<and> resp_status response \<le> 299)
               \<and> resp_text response = Inr errorText"
        then have "\<not> resp_ok response" "resp_text response = Inr errorText"
          by (simp_all add: resp_ok_def)
        then have "complete (call_url call) (FetchResolves response)
               = Inl (new_Error (err_api_pre @ show_nat (resp_status response)
                                          @ asc ''): '' @ take 200 errorText))"
          by (rule complete_cases(2))
        with key a show "reply ?h = \<lparr>status = 500,
                    payload = ErrorReply (err_api_pre @ show_nat (resp_status response)
                                          @ asc ''): '' @ take 200 errorText)\<rparr>"
          by (simp add: eq catch_reply_new_Error)
      next
        fix response data
        assume a: "net call = FetchResolves response
               \<and> 200 \<le> resp_status response \<and> resp_status response \<le> 299
               \<and> resp_json response = Inr data
               \<and> (first_content data = None \<or> first_content data = Some [])"
        then have "resp_ok response" "resp_json response = Inr data"
          "first_content data = None \<or> first_content data = Some []"
          by (simp_all add: resp_ok_def)
        then have "complete (call_url call) (FetchResolves response) = Inl (new_Error err_empty)"
          by (rule complete_cases(3))
        with key a show "reply ?h = \<lparr>status = 500, payload = ErrorReply err_empty\<rparr>"
          by (simp add: eq catch_reply_new_Error)
      qed
    qed
    show ?thesis
      by (rule conjI, rule c1, rule conjI, rule c2, rule conjI, rule c3, rule conjI, rule c4,
          rule conjI, rule c5, rule conjI, rule c6, rule dist)
  qed
qed

lemma includes_samples:
  "\<not> str_includes (asc ''fetch failed'') (asc ''timeout'')"
  "str_includes (asc ''fetch failed'') (asc ''fetch failed'')"
  by (simp_all add: str_includes_def asc_def sublist_Cons_right)

theorem generate_POST_failures_witness:
  "body_title question_only = Some (asc '' Q '') \<and> trim (asc '' Q '') \<noteq> []
   \<and> clean_models (body_models question_only) = []
   \<and> reply (generate_POST prompts_partial env_without_key sample_time net_article
               (Body question_only))
       = \<lparr>status = 500, payload = ErrorReply err_key\<rparr>
   \<and> calls (generate_POST prompts_partial env_without_key sample_time net_article
               (Body question_only)) = []
   \<and> reply (generate_POST prompts_partial env_with_key sample_time net_aborted
               (Body question_only))
       = \<lparr>status = 500, payload = ErrorReply err_timeout\<rparr>
   \<and> reply (generate_POST prompts_partial env_with_key sample_time net_refused
               (Body question_only))
       = \<lparr>status = 500,
          payload = ErrorReply (err_connect_pre
                      @ asc ''https://api.openai.com/v1/chat/completions''
                      @ err_connect_post)\<rparr>
   \<and> reply (generate_POST prompts_partial env_with_key sample_time net_unavailable
               (Body question_only))
       = \<lparr>status = 500,
          payload = ErrorReply (err_api_pre @ show_nat 503 @ asc ''): ''
                                @ replicate 200 0x78)\<rparr>
   \<and> reply (generate_POST prompts_partial env_with_key sample_time net_blank
               (Body question_only))
       = \<lparr>status = 500, payload = ErrorReply err_empty\<rparr>
   \<and> body_title model_with_data = Some (asc ''Q'') \<and> trim (asc ''Q'') \<noteq> []
   \<and> body_searchData model_with_data = Some [(asc ''A'', five_items)]
   \<and> reply (generate_POST prompts_partial env_with_key sample_time net_aborted
               (Body model_with_data))
       = \<lparr>status = 500, payload = ErrorReply err_timeout\<rparr>
   \<and> body_title inherited_name = Some (asc ''Q'')
   \<and> body_searchData inherited_name = Some [(asc ''A'', [])]
   \<and> clean_models (body_models inherited_name) = [asc ''constructor'']
   \<and> generate_POST prompts_partial env_with_key sample_time net_article (Body inherited_name)
       = \<lparr>reply = catch_reply slice_type_error, calls = []\<rparr>"
proof -
  have a: "body_title question_only = Some (asc '' Q '')"
    by (simp add: question_only_def)
  have b: "trim (asc '' Q '') \<noteq> []"
    by (simp add: trim_samples asc_Nil_iff)
  have c: "clean_models (body_models question_only) = []"
    by (simp add: question_only_def clean_models_samples)
  then have c': "clean_models (body_models question_only) = []
      \<or> (\<exists>sd. body_searchData question_only = Some sd \<and> sd \<noteq> [])" ..
  note T = generate_POST_failures [OF a b c']
  have nk: "or_default (AI_API_KEY env_without_key)
              (or_default (OPENAI_API_KEY env_without_key) []) = []"
    by (simp add: env_without_key_def or_default_def js_or_def)
  have k: "or_default (AI_API_KEY env_with_key)
              (or_default (OPENAI_API_KEY env_with_key) []) \<noteq> []"
    by (simp add: env_with_key_def or_default_def js_or_def asc_Nil_iff)
  have url: "or_default (AI_API_URL env_with_key)
               (asc ''https://api.openai.com/v1/chat/completions'')
             = asc ''https://api.openai.com/v1/chat/completions''"
    by (simp add: env_with_key_def or_default_def)
  from T [where env = env_without_key and ps = prompts_partial and now = sample_time
            and net = net_article and u = "[]" and s = "[]"] nk c
  have 1: "reply (generate_POST prompts_partial env_without_key sample_time net_article
             (Body question_only))
       = \<lparr>status = 500, payload = ErrorReply err_key\<rparr>"
    "calls (generate_POST prompts_partial env_without_key sample_time net_article
               (Body question_only)) = []"
    by blast+
  from T [where env = env_with_key and ps = prompts_partial and now = sample_time
            and net = net_aborted and u = "[]" and s = "[]"] k c
  have 2: "reply (generate_POST prompts_partial env_with_key sample_time net_aborted
               (Body question_only))
       = \<lparr>status = 500, payload = ErrorReply err_timeout\<rparr>"
    by (auto simp: net_aborted_def)
  from T [where env = env_with_key and ps = prompts_partial and now = sample_time
            and net = net_refused and u = "[]" and s = "[]"] k c
  have 3: "reply (generate_POST prompts_partial env_with_key sample_time net_refused
               (Body question_only))
       = \<lparr>status = 500,
          payload = ErrorReply (err_connect_pre
                      @ asc ''https://api.openai.com/v1/chat/completions''
                      @ err_connect_post)\<rparr>"
    by (auto simp: net_refused_def includes_samples asc_eq_iff url)
  from T [where env = env_with_key and ps = prompts_partial and now = sample_time
            and net = net_unavailable and u = "[]" and s = "[]"] k c
  have 4: "reply (generate_POST prompts_partial env_with_key sample_time net_unavailable
               (Body question_only))
       = \<lparr>status = 500,
          payload = ErrorReply (err_api_pre @ show_nat 503 @ asc ''): ''
                                @ replicate 200 0x78)\<rparr>"
    by (auto simp: net_unavailable_def)
  from T [where env = env_with_key and ps = prompts_partial and now = sample_time
            and net = net_blank and u = "[]" and s = "[]"] k c
  have 5: "reply (generate_POST prompts_partial env_with_key sample_time net_blank
               (Body question_only))
       = \<lparr>status = 500, payload = ErrorReply err_empty\<rparr>"
    by (auto simp: net_blank_def first_content_def)
  have ma: "body_title model_with_data = Some (asc ''Q'')"
    "body_searchData model_with_data = Some [(asc ''A'', five_items)]"
    "clean_models (body_models model_with_data) = [asc ''A'']"
    by (simp_all add: model_with_data_def clean_models_samples)
  have mb: "trim (asc ''Q'') \<noteq> []" by (simp add: trim_samples asc_Nil_iff)
  from ma have mc: "clean_models (body_models model_with_data) = []
      \<or> (\<exists>sd. body_searchData model_with_data = Some sd \<and> sd \<noteq> [])" by simp
  have "\<not> reads_method [(asc ''A'', five_items)] (asc ''A'')"
    by (simp add: reads_method_def get_property_def)
  then have md: "formatSearchData [asc ''A''] [(asc ''A'', five_items)]
      = Inr (join [0x0A, 0x0A] (map (product_entry [(asc ''A'', five_items)]) [asc ''A'']))"
    by (intro formatSearchData_digest) simp
  from generate_POST_failures [OF ma(1) mb mc, where env = env_with_key
         and ps = prompts_partial and now = sample_time and net = net_aborted
         and u = "[]" and s = "[]"] k ma md
  have 6: "reply (generate_POST prompts_partial env_with_key sample_time net_aborted
               (Body model_with_data))
       = \<lparr>status = 500, payload = ErrorReply err_timeout\<rparr>"
    by (auto simp: net_aborted_def)
  have ia: "body_title inherited_name = Some (asc ''Q'')"
    "body_searchData inherited_name = Some [(asc ''A'', [])]"
    "clean_models (body_models inherited_name) = [asc ''constructor'']"
    by (simp_all add: inherited_name_def clean_models_def trim_def asc_def is_white_space_def)
  from ia have ic: "clean_models (body_models inherited_name) = []
      \<or> (\<exists>sd. body_searchData inherited_name = Some sd \<and> sd \<noteq> [])" by simp
  have "reads_method [(asc ''A'', [])] (asc ''constructor'')"
    by (simp add: reads_method_def get_property_def object_prototype_functions_def asc_eq_iff)
  then have id: "formatSearchData [asc ''constructor''] [(asc ''A'', [])] = Inl slice_type_error"
    by (intro formatSearchData_throws [of "asc ''constructor''"]) simp
  from generate_POST_failures [OF ia(1) mb ic, where env = env_with_key
         and ps = prompts_partial and now = sample_time and net = net_article
         and u = "[]" and s = "[]"] ia id
  have 7: "generate_POST prompts_partial env_with_key sample_time net_article
             (Body inherited_name)
       = \<lparr>reply = catch_reply slice_type_error, calls = []\<rparr>"
    by simp
  from a b c 1 2 3 4 5 6 7 ma mb ia show ?thesis by simp
qed

text \<open>
  C8 at a model name that every object inherits. For the models list with the one name
  \<open>constructor\<close> and search data that has no key of that name, the claim asks for the
  digest "constructor" with the fixed "no summary available" text. The code reads the
  inherited function instead and throws at \<open>items.slice\<close>: there is no digest, and the
  handler answers 500 with the message of the \<open>TypeError\<close>, without a call.
\<close>

theorem formatSearchData_inherited_name:
  "formatSearchData [asc ''constructor''] [(asc ''A'', [])] = Inl slice_type_error
   \<and> join [0x0A, 0x0A] (map (product_entry [(asc ''A'', [])]) [asc ''constructor''])
       = asc ''constructor'' @ no_summary
   \<and> generate_POST prompts_partial env_with_key sample_time net_article (Body inherited_name)
       = \<lparr>reply = \<lparr>status = 500,
                    payload = ErrorReply (asc ''items.slice is not a function'')\<rparr>,
          calls = []\<rparr>"
proof -
  have "reads_method [(asc ''A'', [])] (asc ''constructor'')"
    by (simp add: reads_method_def get_property_def object_prototype_functions_def asc_eq_iff)
  then have 1: "formatSearchData [asc ''constructor''] [(asc ''A'', [])] = Inl slice_type_error"
    by (intro formatSearchData_throws [of "asc ''constructor''"]) simp
  have 2: "join [0x0A, 0x0A] (map (product_entry [(asc ''A'', [])]) [asc ''constructor''])
       = asc ''constructor'' @ no_summary"
    by (simp add: product_entry_def asc_eq_iff)
  have ia: "body_title inherited_name = Some (asc ''Q'')"
    "body_searchData inherited_name = Some [(asc ''A'', [])]"
    "clean_models (body_models inherited_name) = [asc ''constructor'']"
    by (simp_all add: inherited_name_def clean_models_def trim_def asc_def is_white_space_def)
  have tq: "trim (asc ''Q'') \<noteq> []" by (simp add: trim_samples asc_Nil_iff)
  from ia have ic: "clean_models (body_models inherited_name) = []
      \<or> (\<exists>sd. body_searchData inherited_name = Some sd \<and> sd \<noteq> [])" by simp
  from ia 1 have d: "(if clean_models (body_models inherited_name) \<noteq> []
        then formatSearchData (clean_models (body_models inherited_name))
               (case body_searchData inherited_name of None \<Rightarrow> [] | Some sd \<Rightarrow> sd)
        else Inr []) = Inl slice_type_error"
    by simp
  from generate_POST_digest_throws [OF ia(1) tq ic d]
  have 3: "generate_POST prompts_partial env_with_key sample_time net_article
             (Body inherited_name)
       = \<lparr>reply = \<lparr>status = 500,
                    payload = ErrorReply (asc ''items.slice is not a function'')\<rparr>,
          calls = []\<rparr>"
    by (simp add: catch_reply_def slice_type_error_def)
  from 1 2 3 show ?thesis by simp
qed

lemma generate_POST_ok:
  assumes "status (reply (generate_POST ps env now net request)) = 200"
  shows "\<exists>b article md. request = Body b
         \<and> payload (reply (generate_POST ps env now net request)) = ArticleReply article md
         \<and> md_models md = clean_models (body_models b)"
proof (cases request)
  case (BodyRejects e)
  with assms show ?thesis by (simp add: generate_POST_def catch_reply_status)
next
  case (Body b)
  show ?thesis
  proof (cases "body_title b = None \<or> (\<exists>t. body_title b = Some t \<and> trim t = [])")
    case True
    with assms Body show ?thesis by (simp add: generate_POST_no_title)
  next
    case False
    then obtain t where t: "body_title b = Some t" "trim t \<noteq> []" by auto
    show ?thesis
    proof (cases "clean_models (body_models b) = []
                  \<or> (\<exists>sd. body_searchData b = Some sd \<and> sd \<noteq> [])")
      case False
      then have "clean_models (body_models b) \<noteq> []"
        "body_searchData b = None \<or> body_searchData b = Some []"
        by (cases "body_searchData b"; simp)+
      with t assms Body show ?thesis by (simp add: generate_POST_no_searchData)
    next
      case True
      show ?thesis
      proof (cases "(if clean_models (body_models b) \<noteq> []
        then formatSearchData (clean_models (body_models b))
               (case body_searchData b of None \<Rightarrow> [] | Some sd \<Rightarrow> sd)
        else Inr [])")
        case (Inl e)
        from generate_POST_digest_throws [OF t True Inl] assms Body show ?thesis
          by (simp add: catch_reply_status)
      next
        case (Inr d)
        from generate_POST_validated [OF t True Inr, of env ps now net]
        obtain call where eq: "generate_POST ps env now net (Body b) =
       (if or_default (AI_API_KEY env) (or_default (OPENAI_API_KEY env) []) = [] then
           \<lparr>reply = \<lparr>status = 500, payload = ErrorReply err_key\<rparr>, calls = []\<rparr>
        else
           \<lparr>reply = (case complete (call_url call) (net call) of
                       Inl error \<Rightarrow> catch_reply error
                     | Inr article \<Rightarrow>
                        \<lparr>status = 200,
                         payload = ArticleReply article
                           \<lparr>md_title = trim t, md_models = clean_models (body_models b),
                            md_contentType = or_default (body_contentType b) (asc ''discussion''),
                            md_stylePreference =
                              or_default (body_stylePreference b) (asc ''random''),
                            md_generatedAt = now\<rparr>\<rparr>),
            calls = [call]\<rparr>)"
          by blast
        show ?thesis
        proof (cases "complete (call_url call) (net call)")
          case (Inl e)
          with assms Body show ?thesis
            by (simp add: eq catch_reply_status split: if_splits)
        next
          case (Inr article)
          with assms Body show ?thesis
            by (simp add: eq split: if_splits)
        qed
      qed
    qed
  qed
qed

lemma generate_POST_plain:
  assumes "body_title b = Some t" and "trim t \<noteq> []" and "clean_models (body_models b) = []"
  shows "\<forall>call \<in> set (calls (generate_POST ps env now net (Body b))).
           call_user call = tmpl_open @ trim t @ plain_rules
             @ buildPrompt_styleHint (Some (or_default (body_stylePreference b) (asc ''random'')))"
proof -
  from assms(3) have v: "clean_models (body_models b) = []
      \<or> (\<exists>sd. body_searchData b = Some sd \<and> sd \<noteq> [])" ..
  from assms(3) have d: "(if clean_models (body_models b) \<noteq> []
        then formatSearchData (clean_models (body_models b))
               (case body_searchData b of None \<Rightarrow> [] | Some sd \<Rightarrow> sd)
        else Inr []) = Inr []"
    by simp
  from generate_POST_validated [OF assms(1,2) v d, of env ps now net]
  obtain call where u: "call_user call =
        buildPrompt (trim t) (clean_models (body_models b)) []
          (clean_models (body_models b) \<noteq> [])
          (Some (or_default (body_stylePreference b) (asc ''random'')))
          (Some (or_default (body_contentType b) (asc ''discussion'')))"
    and eq: "generate_POST ps env now net (Body b) =
       (if or_default (AI_API_KEY env) (or_default (OPENAI_API_KEY env) []) = [] then
           \<lparr>reply = \<lparr>status = 500, payload = ErrorReply err_key\<rparr>, calls = []\<rparr>
        else
           \<lparr>reply = (case complete (call_url call) (net call) of
                       Inl error \<Rightarrow> catch_reply error
                     | Inr article \<Rightarrow>
                        \<lparr>status = 200,
                         payload = ArticleReply article
                           \<lparr>md_title = trim t, md_models = clean_models (body_models b),
                            md_contentType = or_default (body_contentType b) (asc ''discussion''),
                            md_stylePreference =
                              or_default (body_stylePreference b) (asc ''random''),
                            md_generatedAt = now\<rparr>\<rparr>),
            calls = [call]\<rparr>)"
    by blast
  from u assms(3) have "call_user call = tmpl_open @ trim t @ plain_rules
             @ buildPrompt_styleHint (Some (or_default (body_stylePreference b) (asc ''random'')))"
    by (simp add: buildPrompt_def)
  then show ?thesis by (simp add: eq)
qed

lemma clean_models_blank:
  "(\<forall>l. ms = Some l \<longrightarrow> (\<forall>m \<in> set l. \<forall>c \<in> set m. is_white_space c)) \<Longrightarrow> clean_models ms = []"
  by (cases ms) (simp_all add: clean_models_def filter_empty_conv trim_Nil_iff)

text \<open>
  C10. The handler replaces the models list by its cleaned form: every name trimmed,
  the empty ones dropped, the first three kept. So the cleaned list has at most three
  names, each the non-empty trimmed form of a name of the request. Validation looks at
  the cleaned list: with a title, a non-empty cleaned list and no search data the reply
  is 400. A request with a title whose model names are all white space has an empty
  cleaned list: it is not rejected with 400, whatever its search data, and the user
  prompt of any call it makes is the template without products.
  Every reply with status 200 answers a request whose body was read, and its
  \<open>metadata.models\<close> is the cleaned list: at most three names, each non-empty and trimmed.
\<close>

theorem generate_POST_models:
  "clean_models (Some l) = take 3 (filter (\<lambda>m. m \<noteq> []) (map trim l))
   \<and> length (clean_models ms) \<le> 3
   \<and> (\<forall>n \<in> set (clean_models ms). n \<noteq> [] \<and> trim n = n
         \<and> (\<exists>m \<in> set (case ms of None \<Rightarrow> [] | Some l \<Rightarrow> l). n = trim m))
   \<and> (body_title b = Some t \<and> trim t \<noteq> [] \<and> clean_models (body_models b) \<noteq> []
       \<and> (body_searchData b = None \<or> body_searchData b = Some []) \<longrightarrow>
        status (reply (generate_POST ps env now net (Body b))) = 400)
   \<and> (body_title b = Some t \<and> trim t \<noteq> []
       \<and> (\<forall>l. body_models b = Some l \<longrightarrow> (\<forall>m \<in> set l. \<forall>c \<in> set m. is_white_space c)) \<longrightarrow>
        clean_models (body_models b) = []
      \<and> status (reply (generate_POST ps env now net (Body b))) \<noteq> 400
      \<and> (\<forall>call \<in> set (calls (generate_POST ps env now net (Body b))).
           call_user call = tmpl_open @ trim t @ plain_rules
             @ buildPrompt_styleHint
                 (Some (or_default (body_stylePreference b) (asc ''random'')))))
   \<and> (status (reply (generate_POST ps env now net request)) = 200 \<longrightarrow>
        (\<exists>b' article md. request = Body b'
           \<and> payload (reply (generate_POST ps env now net request)) = ArticleReply article md
           \<and> md_models md = clean_models (body_models b')
           \<and> length (md_models md) \<le> 3
           \<and> (\<forall>n \<in> set (md_models md). n \<noteq> [] \<and> trim n = n)))"
proof (intro conjI impI)
  show "clean_models (Some l) = take 3 (filter (\<lambda>m. m \<noteq> []) (map trim l))"
    by (simp add: clean_models_def)
  show "length (clean_models ms) \<le> 3" by (simp add: clean_models_def)
  show "\<forall>n \<in> set (clean_models ms). n \<noteq> [] \<and> trim n = n
         \<and> (\<exists>m \<in> set (case ms of None \<Rightarrow> [] | Some l \<Rightarrow> l). n = trim m)"
  proof
    fix n assume "n \<in> set (clean_models ms)"
    then have "n \<in> set (filter (\<lambda>m. m \<noteq> [])
                     (map trim (case ms of None \<Rightarrow> [] | Some l \<Rightarrow> l)))"
      unfolding clean_models_def by (rule in_set_takeD)
    then show "n \<noteq> [] \<and> trim n = n
         \<and> (\<exists>m \<in> set (case ms of None \<Rightarrow> [] | Some l \<Rightarrow> l). n = trim m)"
      by (auto simp: trim_idem)
  qed
next
  assume "body_title b = Some t \<and> trim t \<noteq> [] \<and> clean_models (body_models b) \<noteq> []
       \<and> (body_searchData b = None \<or> body_searchData b = Some [])"
  then have "generate_POST ps env now net (Body b)
         = \<lparr>reply = \<lparr>status = 400, payload = ErrorReply err_searchData\<rparr>, calls = []\<rparr>"
    by (intro generate_POST_no_searchData) auto
  then show "status (reply (generate_POST ps env now net (Body b))) = 400" by simp
next
  assume a: "body_title b = Some t \<and> trim t \<noteq> []
       \<and> (\<forall>l. body_models b = Some l \<longrightarrow> (\<forall>m \<in> set l. \<forall>c \<in> set m. is_white_space c))"
  then show c: "clean_models (body_models b) = []" by (intro clean_models_blank) simp
  from a c have "status (reply (generate_POST ps env now net (Body b))) = 200
       \<or> status (reply (generate_POST ps env now net (Body b))) = 500"
    by (intro generate_POST_status) auto
  then show "status (reply (generate_POST ps env now net (Body b))) \<noteq> 400" by auto
  from a c show "\<forall>call \<in> set (calls (generate_POST ps env now net (Body b))).
           call_user call = tmpl_open @ trim t @ plain_rules
             @ buildPrompt_styleHint
                 (Some (or_default (body_stylePreference b) (asc ''random'')))"
    by (intro generate_POST_plain) auto
next
  assume "status (reply (generate_POST ps env now net request)) = 200"
  then obtain b' article md where r: "request = Body b'"
    "payload (reply (generate_POST ps env now net request)) = ArticleReply article md"
    "md_models md = clean_models (body_models b')"
    using generate_POST_ok by blast
  have "length (clean_models (body_models b')) \<le> 3" by (simp add: clean_models_def)
  moreover have "\<forall>n \<in> set (clean_models (body_models b')). n \<noteq> [] \<and> trim n = n"
    by (auto simp: clean_models_def trim_idem dest!: in_set_takeD)
  ultimately show "\<exists>b' article md. request = Body b'
           \<and> payload (reply (generate_POST ps env now net request)) = ArticleReply article md
           \<and> md_models md = clean_models (body_models b')
           \<and> length (md_models md) \<le> 3
           \<and> (\<forall>n \<in> set (md_models md). n \<noteq> [] \<and> trim n = n)"
    using r by auto
qed

lemma generate_POST_question_only:
  "reply (generate_POST prompts_partial env_with_key sample_time net_article (Body question_only))
   = \<lparr>status = 200,
      payload = ArticleReply (asc ''text'')
        \<lparr>md_title = asc ''Q'', md_models = [], md_contentType = asc ''discussion'',
         md_stylePreference = asc ''random'', md_generatedAt = sample_time\<rparr>\<rparr>"
proof -
  have a: "body_title question_only = Some (asc '' Q '')"
    by (simp add: question_only_def)
  have b: "trim (asc '' Q '') \<noteq> []"
    by (simp add: trim_samples asc_Nil_iff)
  have c: "clean_models (body_models question_only) = []"
    by (simp add: question_only_def clean_models_samples)
  then have c': "clean_models (body_models question_only) = []
      \<or> (\<exists>sd. body_searchData question_only = Some sd \<and> sd \<noteq> [])" ..
  from c have d: "(if clean_models (body_models question_only) \<noteq> []
        then formatSearchData (clean_models (body_models question_only))
               (case body_searchData question_only of None \<Rightarrow> [] | Some sd \<Rightarrow> sd)
        else Inr []) = Inr []"
    by simp
  have k: "or_default (AI_API_KEY env_with_key)
              (or_default (OPENAI_API_KEY env_with_key) []) \<noteq> []"
    by (simp add: env_with_key_def or_default_def js_or_def asc_Nil_iff)
  have art: "complete url (net_article call) = Inr (asc ''text'')" for url call
    by (simp add: complete_def net_article_def read_article_def resp_ok_def first_content_def
        or_default_def js_or_def asc_Nil_iff)
  from generate_POST_validated
         [OF a b c' d, of env_with_key prompts_partial sample_time net_article]
  show ?thesis
    using k by (auto simp: art c trim_samples clean_models_samples question_only_def
                     or_default_def)
qed

theorem generate_POST_models_witness:
  "length (clean_models (Some [asc '' A '', [], asc ''B'', asc ''C'', asc ''D''])) \<le> 3
   \<and> asc ''A'' \<in> set (clean_models (Some [asc '' A '', [], asc ''B'', asc ''C'', asc ''D'']))
   \<and> trim (asc ''A'') = asc ''A''
   \<and> body_title question_only = Some (asc '' Q '') \<and> trim (asc '' Q '') \<noteq> []
   \<and> body_models question_only = Some [asc ''  '', []]
   \<and> list_all (list_all is_white_space) [asc ''  '', []]
   \<and> status (reply (generate_POST prompts_partial env_with_key sample_time net_article
                       (Body question_only))) = 200
   \<and> (\<exists>article md.
         payload (reply (generate_POST prompts_partial env_with_key sample_time net_article
                           (Body question_only))) = ArticleReply article md
         \<and> md_models md = [])"
proof -
  have cm: "clean_models (Some [asc '' A '', [], asc ''B'', asc ''C'', asc ''D''])
            = [asc ''A'', asc ''B'', asc ''C'']"
    by (simp add: clean_models_def trim_def asc_def is_white_space_def)
  have a: "body_title question_only = Some (asc '' Q '')"
    by (simp add: question_only_def)
  have b: "trim (asc '' Q '') \<noteq> []"
    by (simp add: trim_samples asc_Nil_iff)
  have w: "\<forall>l. body_models question_only = Some l \<longrightarrow>
          (\<forall>m \<in> set l. \<forall>c \<in> set m. is_white_space c)"
    by (simp add: question_only_def asc_def is_white_space_def)
  have c: "clean_models (body_models question_only) = []"
    by (simp add: question_only_def clean_models_samples)
  have st: "status (reply (generate_POST prompts_partial env_with_key sample_time net_article
                       (Body question_only))) = 200"
    by (simp add: generate_POST_question_only)
  note T = generate_POST_models
    [where ms = "Some [asc '' A '', [], asc ''B'', asc ''C'', asc ''D'']"
       and b = question_only and t = "asc '' Q ''" and ps = prompts_partial
       and env = env_with_key and now = sample_time and net = net_article
       and request = "Body question_only" and l = "[]"]
  from T have 1: "length (clean_models (Some [asc '' A '', [], asc ''B'', asc ''C'', asc ''D''])) \<le> 3"
    by blast
  from T cm have 2: "trim (asc ''A'') = asc ''A''" by simp
  from T st c have 3: "\<exists>article md.
         payload (reply (generate_POST prompts_partial env_with_key sample_time net_article
                           (Body question_only))) = ArticleReply article md
         \<and> md_models md = []"
    by auto
  have bm: "body_models question_only = Some [asc ''  '', []]"
    by (simp add: question_only_def)
  have ws: "list_all (list_all is_white_space) [asc ''  '', []]"
    by (simp add: asc_def is_white_space_def)
  from T a b w have 4: "status (reply (generate_POST prompts_partial env_with_key sample_time
                                  net_article (Body question_only))) \<noteq> 400"
    by blast
  from 1 2 3 4 a b bm ws st cm show ?thesis by simp
qed

section \<open>The search endpoint: properties\<close>

lemma querySerpstack_null:
  "net \<lparr>query_access_key = key, query_term = model, query_num = 10\<rparr> = SerpRejects e
     \<Longrightarrow> querySerpstack key net model = None"
  "net \<lparr>query_access_key = key, query_term = model, query_num = 10\<rparr> = SerpResolves res
     \<Longrightarrow> \<not> serp_ok res \<Longrightarrow> querySerpstack key net model = None"
  "net \<lparr>query_access_key = key, query_term = model, query_num = 10\<rparr> = SerpResolves res
     \<Longrightarrow> serp_ok res \<Longrightarrow> serp_json res = Inl e \<Longrightarrow> querySerpstack key net model = None"
  "net \<lparr>query_access_key = key, query_term = model, query_num = 10\<rparr> = SerpResolves res
     \<Longrightarrow> serp_ok res \<Longrightarrow> serp_json res = Inr data \<Longrightarrow> data_error data = Some err
     \<Longrightarrow> querySerpstack key net model = None"
  "net \<lparr>query_access_key = key, query_term = model, query_num = 10\<rparr> = SerpResolves res
     \<Longrightarrow> serp_ok res \<Longrightarrow> serp_json res = Inr data \<Longrightarrow> data_error data = None
     \<Longrightarrow> organic_results data = None \<or> organic_results data = Some []
     \<Longrightarrow> querySerpstack key net model = None"
  by (auto simp: querySerpstack_def querySerpstack_try_def split: sum.splits)

lemma search_POST_string:
  "search_POST key net (Body (JsonBody (ModelString m))) =
     (if trim m = [] then \<lparr>status = 400, payload = SearchError err_search_model\<rparr>
      else if or_default key [] = []
      then \<lparr>status = 500, payload = SearchError err_search_key\<rparr>
      else case querySerpstack (or_default key []) net (trim m) of
             None \<Rightarrow> \<lparr>status = 502, payload = SearchError err_search_none\<rparr>
           | Some results \<Rightarrow>
               if results = [] then \<lparr>status = 502, payload = SearchError err_search_none\<rparr>
               else \<lparr>status = 200, payload = SearchResults (trim m) results\<rparr>)"
  by (simp add: search_POST_def Let_def or_default_def js_or_def)

lemma search_POST_absent:
  "search_POST key net (Body (JsonBody ModelAbsent))
   = \<lparr>status = 400, payload = SearchError err_search_model\<rparr>"
  by (simp add: search_POST_def Let_def or_default_def)

lemma type_errors_plain:
  "\<not> str_includes (error_message null_body_error) (asc ''invalid_access_key'')"
  "\<not> str_includes (error_message null_body_error) (asc ''API Access Key'')"
  "\<not> str_includes (error_message trim_type_error) (asc ''invalid_access_key'')"
  "\<not> str_includes (error_message trim_type_error) (asc ''API Access Key'')"
  "\<not> str_includes err_search_failed (asc ''invalid_access_key'')"
  "\<not> str_includes err_search_failed (asc ''API Access Key'')"
  by (simp_all add: str_includes_def null_body_error_def trim_type_error_def
      err_search_failed_def asc_def sublist_Cons_right)

lemma search_catch_plain:
  "\<not> str_includes msg (asc ''invalid_access_key'') \<Longrightarrow>
   \<not> str_includes msg (asc ''API Access Key'') \<Longrightarrow>
   search_catch (ErrorObj name msg) = \<lparr>status = 500, payload = SearchError msg\<rparr>"
  by (simp add: search_catch_def)

lemma search_POST_thrown:
  "search_POST key net (Body NullBody)
   = \<lparr>status = 500, payload = SearchError (error_message null_body_error)\<rparr>"
  "search_POST key net (Body (JsonBody ModelOther))
   = \<lparr>status = 500, payload = SearchError (error_message trim_type_error)\<rparr>"
  "search_POST key net (BodyRejects NonError)
   = \<lparr>status = 500, payload = SearchError err_search_failed\<rparr>"
proof -
  have n: "null_body_error = ErrorObj (error_name null_body_error) (error_message null_body_error)"
    by (simp add: null_body_error_def)
  have t: "trim_type_error = ErrorObj (error_name trim_type_error) (error_message trim_type_error)"
    by (simp add: trim_type_error_def)
  have "search_catch null_body_error
        = \<lparr>status = 500, payload = SearchError (error_message null_body_error)\<rparr>"
    by (subst n) (rule search_catch_plain [OF type_errors_plain(1,2)])
  then show "search_POST key net (Body NullBody)
   = \<lparr>status = 500, payload = SearchError (error_message null_body_error)\<rparr>"
    by (simp add: search_POST_def)
  have "search_catch trim_type_error
        = \<lparr>status = 500, payload = SearchError (error_message trim_type_error)\<rparr>"
    by (subst t) (rule search_catch_plain [OF type_errors_plain(3,4)])
  then show "search_POST key net (Body (JsonBody ModelOther))
   = \<lparr>status = 500, payload = SearchError (error_message trim_type_error)\<rparr>"
    by (simp add: search_POST_def)
  show "search_POST key net (BodyRejects NonError)
   = \<lparr>status = 500, payload = SearchError err_search_failed\<rparr>"
    using type_errors_plain(5,6) by (simp add: search_POST_def search_catch_def)
qed

lemma search_POST_status_set:
  "status (search_POST key net (Body body)) \<in> {200, 400, 500, 502}"
proof (cases body)
  case NullBody
  then show ?thesis by (simp add: search_POST_thrown)
next
  case (JsonBody mv)
  then show ?thesis
    by (cases mv)
       (simp_all add: search_POST_absent search_POST_thrown search_POST_string
             split: option.split)
qed

lemma search_POST_status_500:
  assumes "status (search_POST key net (Body body)) = 500"
  shows "key = None \<or> key = Some [] \<or> body = NullBody \<or> body = JsonBody ModelOther"
proof (cases body)
  case NullBody
  then show ?thesis by simp
next
  case (JsonBody mv)
  show ?thesis
  proof (cases mv)
    case ModelAbsent
    with JsonBody assms show ?thesis by (simp add: search_POST_absent)
  next
    case (ModelString m)
    with JsonBody assms show ?thesis
      by (cases key)
         (auto simp: search_POST_string or_default_def js_or_def
               split: option.splits if_splits)
  next
    case ModelOther
    with JsonBody show ?thesis by simp
  qed
qed

text \<open>
  C3, as the code has it. For a request whose body is read and whose model is absent or
  a string, the reply is 400 when the model is missing or trims to the empty string;
  else 500 when the search key is not configured; else 502 when the search client
  yields \<open>null\<close> or an empty list; else 200 with the model and the results. A body that
  is \<open>null\<close>, or whose model is not a string, is answered by the \<open>catch\<close> clause of the
  handler with 500, also with the key configured; so is a body that cannot be read, when
  the message of its error contains neither "invalid_access_key" nor "API Access Key".
  For every body that is read the status is one of 200, 400, 500 and 502, and 500 means
  that the key is not configured, the body is \<open>null\<close> or the model is not a string. The
  search client does not throw: a failure of the call, an answer outside 200 to 299,
  an \<open>error\<close> field in the answer, and a missing or empty list of results all give
  \<open>null\<close>.
\<close>

theorem search_POST_statuses:
  "((mv = ModelAbsent \<or> (\<exists>m. mv = ModelString m \<and> trim m = [])) \<longrightarrow>
      search_POST key net (Body (JsonBody mv))
        = \<lparr>status = 400, payload = SearchError err_search_model\<rparr>)
   \<and> (trim m \<noteq> [] \<and> (key = None \<or> key = Some []) \<longrightarrow>
      search_POST key net (Body (JsonBody (ModelString m)))
        = \<lparr>status = 500, payload = SearchError err_search_key\<rparr>)
   \<and> (trim m \<noteq> [] \<and> key = Some k \<and> k \<noteq> []
        \<and> (querySerpstack k net (trim m) = None \<or> querySerpstack k net (trim m) = Some []) \<longrightarrow>
      search_POST key net (Body (JsonBody (ModelString m)))
        = \<lparr>status = 502, payload = SearchError err_search_none\<rparr>)
   \<and> (trim m \<noteq> [] \<and> key = Some k \<and> k \<noteq> []
        \<and> querySerpstack k net (trim m) = Some results \<and> results \<noteq> [] \<longrightarrow>
      search_POST key net (Body (JsonBody (ModelString m)))
        = \<lparr>status = 200, payload = SearchResults (trim m) results\<rparr>)
   \<and> search_POST key net (Body NullBody)
       = \<lparr>status = 500, payload = SearchError (error_message null_body_error)\<rparr>
   \<and> search_POST key net (Body (JsonBody ModelOther))
       = \<lparr>status = 500, payload = SearchError (error_message trim_type_error)\<rparr>
   \<and> status (search_POST key net (Body body)) \<in> {200, 400, 500, 502}
   \<and> (status (search_POST key net (Body body)) = 500 \<longrightarrow>
        key = None \<or> key = Some [] \<or> body = NullBody \<or> body = JsonBody ModelOther)
   \<and> (net \<lparr>query_access_key = k, query_term = model, query_num = 10\<rparr> = SerpRejects e \<longrightarrow>
        querySerpstack k net model = None)
   \<and> (net \<lparr>query_access_key = k, query_term = model, query_num = 10\<rparr> = SerpResolves res
        \<and> \<not> (200 \<le> serp_status res \<and> serp_status res \<le> 299) \<longrightarrow>
        querySerpstack k net model = None)
   \<and> (net \<lparr>query_access_key = k, query_term = model, query_num = 10\<rparr> = SerpResolves res
        \<and> 200 \<le> serp_status res \<and> serp_status res \<le> 299
        \<and> serp_json res = Inr data \<and> data_error data \<noteq> None \<longrightarrow>
        querySerpstack k net model = None)
   \<and> (net \<lparr>query_access_key = k, query_term = model, query_num = 10\<rparr> = SerpResolves res
        \<and> 200 \<le> serp_status res \<and> serp_status res \<le> 299
        \<and> serp_json res = Inr data \<and> data_error data = None
        \<and> (organic_results data = None \<or> organic_results data = Some []) \<longrightarrow>
        querySerpstack k net model = None)
   \<and> (\<not> str_includes msg (asc ''invalid_access_key'')
        \<and> \<not> str_includes msg (asc ''API Access Key'') \<longrightarrow>
        search_POST key net (BodyRejects (ErrorObj name msg))
          = \<lparr>status = 500, payload = SearchError msg\<rparr>)
   \<and> search_POST key net (BodyRejects NonError)
       = \<lparr>status = 500, payload = SearchError err_search_failed\<rparr>"
proof -
  have c1: "(mv = ModelAbsent \<or> (\<exists>m. mv = ModelString m \<and> trim m = [])) \<longrightarrow>
      search_POST key net (Body (JsonBody mv))
        = \<lparr>status = 400, payload = SearchError err_search_model\<rparr>"
    by (auto simp: search_POST_absent search_POST_string)
  have c2: "trim m \<noteq> [] \<and> (key = None \<or> key = Some []) \<longrightarrow>
      search_POST key net (Body (JsonBody (ModelString m)))
        = \<lparr>status = 500, payload = SearchError err_search_key\<rparr>"
    by (auto simp: search_POST_string or_default_def js_or_def)
  have c3: "trim m \<noteq> [] \<and> key = Some k \<and> k \<noteq> []
        \<and> (querySerpstack k net (trim m) = None \<or> querySerpstack k net (trim m) = Some []) \<longrightarrow>
      search_POST key net (Body (JsonBody (ModelString m)))
        = \<lparr>status = 502, payload = SearchError err_search_none\<rparr>"
    by (auto simp: search_POST_string or_default_def js_or_def)
  have c4: "trim m \<noteq> [] \<and> key = Some k \<and> k \<noteq> []
        \<and> querySerpstack k net (trim m) = Some results \<and> results \<noteq> [] \<longrightarrow>
      search_POST key net (Body (JsonBody (ModelString m)))
        = \<lparr>status = 200, payload = SearchResults (trim m) results\<rparr>"
    by (auto simp: search_POST_string or_default_def js_or_def)
  have c7: "status (search_POST key net (Body body)) \<in> {200, 400, 500, 502}"
    by (rule search_POST_status_set)
  have c8: "status (search_POST key net (Body body)) = 500 \<longrightarrow>
        key = None \<or> key = Some [] \<or> body = NullBody \<or> body = JsonBody ModelOther"
    using search_POST_status_500 by blast
  have c9: "net \<lparr>query_access_key = k, query_term = model, query_num = 10\<rparr> = SerpRejects e
        \<longrightarrow> querySerpstack k net model = None"
    by (simp add: querySerpstack_null)
  have c10: "net \<lparr>query_access_key = k, query_term = model, query_num = 10\<rparr> = SerpResolves res
        \<and> \<not> (200 \<le> serp_status res \<and> serp_status res \<le> 299) \<longrightarrow>
        querySerpstack k net model = None"
    by (auto simp: querySerpstack_null serp_ok_def)
  have c11: "net \<lparr>query_access_key = k, query_term = model, query_num = 10\<rparr> = SerpResolves res
        \<and> 200 \<le> serp_status res \<and> serp_status res \<le> 299
        \<and> serp_json res = Inr data \<and> data_error data \<noteq> None \<longrightarrow>
        querySerpstack k net model = None"
    by (auto simp: querySerpstack_null serp_ok_def)
  have c12: "net \<lparr>query_access_key = k, query_term = model, query_num = 10\<rparr> = SerpResolves res
        \<and> 200 \<le> serp_status res \<and> serp_status res \<le> 299
        \<and> serp_json res = Inr data \<and> data_error data = None
        \<and> (organic_results data = None \<or> organic_results data = Some []) \<longrightarrow>
        querySerpstack k net model = None"
    by (auto simp: querySerpstack_null serp_ok_def)
  have c13: "\<not> str_includes msg (asc ''invalid_access_key'')
        \<and> \<not> str_includes msg (asc ''API Access Key'') \<longrightarrow>
        search_POST key net (BodyRejects (ErrorObj name msg))
          = \<lparr>status = 500, payload = SearchError msg\<rparr>"
    by (simp add: search_POST_def search_catch_plain)
  show ?thesis
    by (rule conjI, rule c1, rule conjI, rule c2, rule conjI, rule c3, rule conjI, rule c4,
        rule conjI, rule search_POST_thrown(1), rule conjI, rule search_POST_thrown(2),
        rule conjI, rule c7, rule conjI, rule c8, rule conjI, rule c9, rule conjI, rule c10,
        rule conjI, rule c11, rule conjI, rule c12, rule conjI, rule c13,
        rule search_POST_thrown(3))
qed

theorem search_POST_statuses_witness:
  "trim (asc ''  '') = []
   \<and> search_POST (Some (asc ''k'')) serp_down (Body search_blank)
       = \<lparr>status = 400, payload = SearchError err_search_model\<rparr>
   \<and> trim (asc '' tv '') \<noteq> []
   \<and> search_POST None serp_down (Body search_tv)
       = \<lparr>status = 500, payload = SearchError err_search_key\<rparr>
   \<and> querySerpstack (asc ''k'') serp_down (trim (asc '' tv '')) = None
   \<and> search_POST (Some (asc ''k'')) serp_down (Body search_tv)
       = \<lparr>status = 502, payload = SearchError err_search_none\<rparr>
   \<and> querySerpstack (asc ''k'') serp_invalid_key (trim (asc '' tv '')) = None
   \<and> search_POST (Some (asc ''k'')) serp_invalid_key (Body search_tv)
       = \<lparr>status = 502, payload = SearchError err_search_none\<rparr>
   \<and> \<not> str_includes (asc ''Unexpected end of JSON input'') (asc ''invalid_access_key'')
   \<and> \<not> str_includes (asc ''Unexpected end of JSON input'') (asc ''API Access Key'')
   \<and> search_POST (Some (asc ''k'')) serp_down (BodyRejects empty_body)
       = \<lparr>status = 500, payload = SearchError (asc ''Unexpected end of JSON input'')\<rparr>"
proof -
  have tv: "trim (asc '' tv '') \<noteq> []"
    by (simp add: trim_def asc_def is_white_space_def)
  have bl: "trim (asc ''  '') = []"
    by (simp add: trim_samples)
  note D = search_POST_statuses
    [where mv = "ModelString (asc '' tv '')" and m = "asc '' tv ''" and key = "Some (asc ''k'')"
       and k = "asc ''k''" and net = serp_down and model = "trim (asc '' tv '')"
       and results = "[]" and e = "ErrorObj (asc ''TypeError'') (asc ''fetch failed'')"]
  from D have d1: "querySerpstack (asc ''k'') serp_down (trim (asc '' tv '')) = None"
    by (simp add: serp_down_def)
  with D tv have d2: "search_POST (Some (asc ''k'')) serp_down (Body search_tv)
       = \<lparr>status = 502, payload = SearchError err_search_none\<rparr>"
    by (simp add: asc_Nil_iff search_tv_def)
  note I = search_POST_statuses
    [where mv = "ModelString (asc '' tv '')" and m = "asc '' tv ''" and key = "Some (asc ''k'')"
       and k = "asc ''k''" and net = serp_invalid_key and model = "trim (asc '' tv '')"
       and results = "[]"
       and res = "\<lparr>serp_status = 200, serp_text = Inr [],
                   serp_json = Inr \<lparr>data_error = Some \<lparr>error_info = None,
                                        error_type = Some (asc ''invalid_access_key''),
                                        error_stringified = []\<rparr>,
                                     organic_results = None\<rparr>\<rparr>"
       and data = "\<lparr>data_error = Some \<lparr>error_info = None,
                                        error_type = Some (asc ''invalid_access_key''),
                                        error_stringified = []\<rparr>,
                     organic_results = None\<rparr>"]
  from I have i1: "querySerpstack (asc ''k'') serp_invalid_key (trim (asc '' tv '')) = None"
    by (simp add: serp_invalid_key_def)
  with I tv have i2: "search_POST (Some (asc ''k'')) serp_invalid_key (Body search_tv)
       = \<lparr>status = 502, payload = SearchError err_search_none\<rparr>"
    by (simp add: asc_Nil_iff search_tv_def)
  from search_POST_statuses
    [where mv = "ModelString (asc '' tv '')" and m = "asc '' tv ''" and key = None
       and net = serp_down] tv
  have n: "search_POST None serp_down (Body search_tv)
       = \<lparr>status = 500, payload = SearchError err_search_key\<rparr>"
    by (simp add: search_tv_def)
  from search_POST_statuses
    [where mv = "ModelString (asc ''  '')" and key = "Some (asc ''k'')" and net = serp_down] bl
  have b4: "search_POST (Some (asc ''k'')) serp_down (Body search_blank)
       = \<lparr>status = 400, payload = SearchError err_search_model\<rparr>"
    by (simp add: search_blank_def)
  have inc: "\<not> str_includes (asc ''Unexpected end of JSON input'') (asc ''invalid_access_key'')"
    "\<not> str_includes (asc ''Unexpected end of JSON input'') (asc ''API Access Key'')"
    by (simp_all add: str_includes_def asc_def sublist_Cons_right)
  from search_POST_statuses
    [where msg = "asc ''Unexpected end of JSON input''" and name = "asc ''SyntaxError''"
       and key = "Some (asc ''k'')" and net = serp_down] inc
  have e5: "search_POST (Some (asc ''k'')) serp_down (BodyRejects empty_body)
       = \<lparr>status = 500, payload = SearchError (asc ''Unexpected end of JSON input'')\<rparr>"
    by (simp add: empty_body_def)
  from tv bl d1 d2 i1 i2 n b4 inc e5 show ?thesis by simp
qed

text \<open>
  C3 as stated fails: with the key configured, a request whose model is not a string
  (the body \<open>{"model": 5}\<close>), a request whose body is \<open>null\<close>, and a request with an empty
  body are each answered with 500.
\<close>

theorem search_POST_statuses_counterexample:
  "search_POST (Some (asc ''k'')) serp_down (Body (JsonBody ModelOther))
     = \<lparr>status = 500, payload = SearchError (asc ''body.model?.trim is not a function'')\<rparr>
   \<and> status (search_POST (Some (asc ''k'')) serp_down (Body NullBody)) = 500
   \<and> status (search_POST (Some (asc ''k'')) serp_down (BodyRejects empty_body)) = 500"
  by (simp add: search_POST_thrown trim_type_error_def)
     (simp add: search_POST_def search_catch_def empty_body_def str_includes_def
        asc_def sublist_Cons_right)


end
